theory Spec2Isabelle
  imports Complex_Main
begin

section \<open>Text\<close>

text \<open>
  Python text is modelled as \<open>string\<close>, one \<open>char\<close> per code point, so the model covers
  the code points below 256. The character classes are those of Python 3 for \<open>str\<close>
  (\<open>str.isspace\<close> and the \<open>re\<close> classes \<open>\s\<close>, \<open>\d\<close>, \<open>\w\<close>) on that range.
\<close>

definition isspace :: "char \<Rightarrow> bool" where
  "isspace c \<longleftrightarrow>
     (let n = (of_char c :: nat)
      in (9 \<le> n \<and> n \<le> 13) \<or> (28 \<le> n \<and> n \<le> 32) \<or> n = 133 \<or> n = 160)"

definition isdigit :: "char \<Rightarrow> bool" where
  "isdigit c \<longleftrightarrow> (let n = (of_char c :: nat) in 48 \<le> n \<and> n \<le> 57)"

definition isword :: "char \<Rightarrow> bool" where
  "isword c \<longleftrightarrow>
     (let n = (of_char c :: nat)
      in (48 \<le> n \<and> n \<le> 57) \<or> (65 \<le> n \<and> n \<le> 90) \<or> n = 95 \<or> (97 \<le> n \<and> n \<le> 122)
         \<or> n = 170 \<or> n = 178 \<or> n = 179 \<or> n = 181 \<or> n = 185 \<or> n = 186
         \<or> (188 \<le> n \<and> n \<le> 190) \<or> (192 \<le> n \<and> n \<le> 214)
         \<or> (216 \<le> n \<and> n \<le> 246) \<or> (248 \<le> n \<and> n \<le> 255))"

text \<open>
  \<open>str.upper\<close> and the case folding of \<open>re.IGNORECASE\<close>, character by character. In
  this range a letter and its other case differ by 32, the bit of a character that
  \<open>with_bit5\<close> sets. Three code points below 256 have an upper case outside that range (181,
  223, 255); the model leaves them unchanged.
\<close>

definition with_bit5 :: "bool \<Rightarrow> char \<Rightarrow> char" where
  "with_bit5 b c = (case c of Char b0 b1 b2 b3 b4 b5 b6 b7 \<Rightarrow> Char b0 b1 b2 b3 b4 b b6 b7)"

definition upper_char :: "char \<Rightarrow> char" where
  "upper_char c =
     (let n = (of_char c :: nat)
      in if (97 \<le> n \<and> n \<le> 122) \<or> (224 \<le> n \<and> n \<le> 254 \<and> n \<noteq> 247)
         then with_bit5 False c else c)"

definition lower_char :: "char \<Rightarrow> char" where
  "lower_char c =
     (let n = (of_char c :: nat)
      in if (65 \<le> n \<and> n \<le> 90) \<or> (192 \<le> n \<and> n \<le> 222 \<and> n \<noteq> 215)
         then with_bit5 True c else c)"

definition upper :: "string \<Rightarrow> string" where
  "upper s = map upper_char s"

definition strip :: "string \<Rightarrow> string" where
  "strip s = rev (dropWhile isspace (rev (dropWhile isspace s)))"

text \<open>\<open>str.replace(c, '')\<close> for a single character \<open>c\<close>.\<close>

definition remove_char :: "char \<Rightarrow> string \<Rightarrow> string" where
  "remove_char c s = filter (\<lambda>x. x \<noteq> c) s"

text \<open>
  \<open>str.split()\<close> without arguments: the maximal runs of non-whitespace characters. The
  first argument is the word being read.
\<close>

fun split_acc :: "string \<Rightarrow> string \<Rightarrow> string list" where
  "split_acc cur [] = (if cur = [] then [] else [cur])"
| "split_acc cur (c # cs) =
     (if isspace c then (if cur = [] then split_acc [] cs else cur # split_acc [] cs)
      else split_acc (cur @ [c]) cs)"

definition str_split :: "string \<Rightarrow> string list" where
  "str_split s = split_acc [] s"

text \<open>The substring test \<open>l in s\<close>.\<close>

fun contains :: "string \<Rightarrow> string \<Rightarrow> bool" where
  "contains l [] = (l = [])"
| "contains l (c # cs) = (take (length l) (c # cs) = l \<or> contains l cs)"

section \<open>Floats\<close>

text \<open>
  A Python \<open>float\<close> is an IEEE 754 binary64 value: a finite number, an infinity or
  not-a-number. The two zeros are one value here; the program never tells them apart
  (\<open>not x\<close>, \<open>abs\<close>, \<open>+\<close>, \<open>-\<close>, \<open>*\<close> and \<open>>\<close> treat them alike).
\<close>

datatype pyfloat = Finite real | PosInf | NegInf | NaN

text \<open>Rounding to the nearest integer, a tie going to the even one.\<close>

definition round_half_even :: "real \<Rightarrow> int" where
  "round_half_even m =
     (let f = \<lfloor>m\<rfloor>; r = m - of_int f
      in if r < 1 / 2 then f else if 1 / 2 < r then f + 1 else if even f then f else f + 1)"

text \<open>
  \<open>normalise\<close> scales a positive number \<open>m\<close> by powers of two, keeping \<open>m * q\<close>
  fixed, until \<open>m\<close> lies in the range of a 53-bit significand, from \<open>2 ^ 52\<close> up to
  \<open>2 ^ 53\<close>, or the quantum \<open>q\<close> has come down to that of the subnormal numbers,
  \<open>1 / 2 ^ 1074\<close>. Halving \<open>q\<close> ends after 1074 steps; when the steps given do not
  bring \<open>m\<close> below \<open>2 ^ 53\<close>, the number is beyond the range of the format, and
  \<open>double_of_real\<close> gives an infinity all the same.
\<close>

fun normalise :: "nat \<Rightarrow> real \<Rightarrow> real \<Rightarrow> real \<times> real" where
  "normalise fuel m q =
     (if fuel = 0 then (m, q)
      else if 2 ^ 53 \<le> m then normalise (fuel - 1) (m / 2) (q * 2)
      else if m < 2 ^ 52 \<and> 1 / 2 ^ 1074 < q then normalise (fuel - 1) (m * 2) (q / 2)
      else (m, q))"

declare normalise.simps [simp del]

text \<open>
  The double nearest to a real number (round to nearest, ties to even), an infinity when
  the rounded magnitude reaches \<open>2 ^ 1024\<close>. This is the result of \<open>float(s)\<close> for the
  number a decimal text denotes, and of an arithmetic operation for its exact result.
\<close>

definition double_of_real :: "real \<Rightarrow> pyfloat" where
  "double_of_real x =
     (if x = 0 then Finite 0
      else case normalise 2200 \<bar>x\<bar> 1 of (m, q) \<Rightarrow>
        let y = of_int (round_half_even m) * q
        in if 2 ^ 1024 \<le> y then (if 0 < x then PosInf else NegInf)
           else Finite (if 0 < x then y else - y))"

fun fneg :: "pyfloat \<Rightarrow> pyfloat" where
  "fneg (Finite x) = Finite (- x)"
| "fneg PosInf = NegInf"
| "fneg NegInf = PosInf"
| "fneg NaN = NaN"

fun fadd :: "pyfloat \<Rightarrow> pyfloat \<Rightarrow> pyfloat" where
  "fadd (Finite x) (Finite y) = double_of_real (x + y)"
| "fadd NaN b = NaN"
| "fadd a NaN = NaN"
| "fadd PosInf NegInf = NaN"
| "fadd NegInf PosInf = NaN"
| "fadd PosInf b = PosInf"
| "fadd NegInf b = NegInf"
| "fadd a PosInf = PosInf"
| "fadd a NegInf = NegInf"

definition fsub :: "pyfloat \<Rightarrow> pyfloat \<Rightarrow> pyfloat" where
  "fsub a b = fadd a (fneg b)"

fun is_negative :: "pyfloat \<Rightarrow> bool" where
  "is_negative (Finite x) \<longleftrightarrow> x < 0"
| "is_negative NegInf \<longleftrightarrow> True"
| "is_negative a \<longleftrightarrow> False"

text \<open>An infinity times zero is not a number; otherwise an infinity keeps the sign of
  the product.\<close>

fun fmul :: "pyfloat \<Rightarrow> pyfloat \<Rightarrow> pyfloat" where
  "fmul (Finite x) (Finite y) = double_of_real (x * y)"
| "fmul NaN b = NaN"
| "fmul a NaN = NaN"
| "fmul a b =
     (if a = Finite 0 \<or> b = Finite 0 then NaN
      else if is_negative a = is_negative b then PosInf else NegInf)"

fun fabs :: "pyfloat \<Rightarrow> pyfloat" where
  "fabs (Finite x) = Finite \<bar>x\<bar>"
| "fabs PosInf = PosInf"
| "fabs NegInf = PosInf"
| "fabs NaN = NaN"

text \<open>\<open>a > b\<close>: false whenever one side is not a number.\<close>

fun fgt :: "pyfloat \<Rightarrow> pyfloat \<Rightarrow> bool" where
  "fgt (Finite x) (Finite y) \<longleftrightarrow> y < x"
| "fgt NaN b \<longleftrightarrow> False"
| "fgt a NaN \<longleftrightarrow> False"
| "fgt PosInf b \<longleftrightarrow> b \<noteq> PosInf"
| "fgt a NegInf \<longleftrightarrow> a \<noteq> NegInf"
| "fgt a b \<longleftrightarrow> False"

section \<open>Exceptions\<close>

text \<open>
  A naive \<open>datetime\<close>. Its fields are within the ranges the constructor enforces; two
  values compare field by field, in the order listed.
\<close>

record datetime =
  year :: nat
  month :: nat
  day :: nat
  hour :: nat
  minute :: nat
  second :: nat
  microsecond :: nat

datatype county_failure =
    CountyNameEmpty
  | NoMatchFor string
  | CountyNotFound string

text \<open>
  The exceptions the code can meet. \<open>DateLogicError\<close>, \<open>AmountMismatchError\<close> and
  \<open>CountyLookupError\<close> are the subclasses of \<open>ValidationError\<close>; each keeps the values its
  message is formatted from (recorded and signed date; numeric amount, written text and
  discrepancy; the reason of the lookup failure).
\<close>

datatype exn =
    ValueError
  | OverflowError
  | IndexError
  | DateLogicError datetime datetime
  | AmountMismatchError pyfloat string pyfloat
  | CountyLookupError county_failure

fun is_ValidationError :: "exn \<Rightarrow> bool" where
  "is_ValidationError (DateLogicError r s) = True"
| "is_ValidationError (AmountMismatchError n w d) = True"
| "is_ValidationError (CountyLookupError f) = True"
| "is_ValidationError e = False"

definition bind :: "exn + 'a \<Rightarrow> ('a \<Rightarrow> exn + 'b) \<Rightarrow> exn + 'b" where
  "bind x f = (case x of Inl e \<Rightarrow> Inl e | Inr v \<Rightarrow> f v)"

section \<open>Regular expressions\<close>

text \<open>
  The fragment of \<open>re\<close> the patterns of the program use: literals (case-sensitive, or
  folded under \<open>re.IGNORECASE\<close>), a greedy bounded repetition of a character class,
  concatenation, alternation, a greedy optional part and a capture group.

  \<open>rx_match r s caps\<close> lists every way \<open>r\<close> matches a prefix of \<open>s\<close>, as the remaining
  input and the captures so far, in the order the backtracking matcher tries them; the
  match \<open>re\<close> reports is the first of the list.
\<close>

datatype rx =
    Lit string
  | LitI string
  | Rep "char \<Rightarrow> bool" nat "nat option"
  | Seq rx rx
  | Alt rx rx
  | Opt rx
  | Grp rx

text \<open>
  \<open>match_literal f l s\<close>: the input after the literal \<open>l\<close>, when \<open>s\<close> starts with it up
  to the folding \<open>f\<close>.
\<close>

fun match_literal :: "(char \<Rightarrow> char) \<Rightarrow> string \<Rightarrow> string \<Rightarrow> string option" where
  "match_literal f [] s = Some s"
| "match_literal f (c # l) [] = None"
| "match_literal f (c # l) (x # s) = (if f x = f c then match_literal f l s else None)"

fun rx_match :: "rx \<Rightarrow> string \<Rightarrow> string list \<Rightarrow> (string \<times> string list) list" where
  "rx_match (Lit l) s caps =
     (case match_literal (\<lambda>c. c) l s of None \<Rightarrow> [] | Some rest \<Rightarrow> [(rest, caps)])"
| "rx_match (LitI l) s caps =
     (case match_literal lower_char l s of None \<Rightarrow> [] | Some rest \<Rightarrow> [(rest, caps)])"
| "rx_match (Rep p lo hi) s caps =
     (let n = length (takeWhile p s);
          m = (case hi of None \<Rightarrow> n | Some h \<Rightarrow> min h n)
      in map (\<lambda>k. (drop k s, caps)) (rev [lo..<Suc m]))"
| "rx_match (Seq r1 r2) s caps =
     concat (map (\<lambda>(s', caps'). rx_match r2 s' caps') (rx_match r1 s caps))"
| "rx_match (Alt r1 r2) s caps = rx_match r1 s caps @ rx_match r2 s caps"
| "rx_match (Opt r) s caps = rx_match r s caps @ [(s, caps)]"
| "rx_match (Grp r) s caps =
     map (\<lambda>(s', caps'). (s', caps' @ [take (length s - length s') s])) (rx_match r s caps)"

text \<open>\<open>re.search\<close>: the first match at the leftmost position that has one; its captures.\<close>

fun re_search :: "rx \<Rightarrow> string \<Rightarrow> string list option" where
  "re_search r [] = (case rx_match r [] [] of [] \<Rightarrow> None | (rest, caps) # other \<Rightarrow> Some caps)"
| "re_search r (c # cs) =
     (case rx_match r (c # cs) [] of [] \<Rightarrow> re_search r cs | (rest, caps) # other \<Rightarrow> Some caps)"

text \<open>\<open>match.group(n)\<close> for \<open>n \<ge> 1\<close>.\<close>

definition group :: "string list \<Rightarrow> nat \<Rightarrow> exn + string" where
  "group caps n = (if 1 \<le> n \<and> n \<le> length caps then Inr (caps ! (n - 1)) else Inl IndexError)"

section \<open>Numbers from text\<close>

definition digit_val :: "char \<Rightarrow> nat" where
  "digit_val c = of_char c - 48"

definition digits_val :: "string \<Rightarrow> nat" where
  "digits_val s = foldl (\<lambda>a c. 10 * a + digit_val c) 0 s"

text \<open>
  \<open>int(s)\<close> and \<open>float(s)\<close> on the texts the patterns capture: digits for \<open>int\<close>, digits
  and periods for \<open>float\<close>. \<open>float\<close> gives the double nearest to the number the text
  denotes.
\<close>

definition py_int :: "string \<Rightarrow> exn + nat" where
  "py_int s = (if s \<noteq> [] \<and> list_all isdigit s then Inr (digits_val s) else Inl ValueError)"

definition py_float :: "string \<Rightarrow> exn + pyfloat" where
  "py_float s =
     (let ip = takeWhile isdigit s
      in case dropWhile isdigit s of
           [] \<Rightarrow> (if ip = [] then Inl ValueError else Inr (double_of_real (real (digits_val ip))))
         | c # fp \<Rightarrow>
             (if c = CHR ''.'' \<and> list_all isdigit fp \<and> (ip \<noteq> [] \<or> fp \<noteq> [])
              then Inr (double_of_real
                     (real (digits_val ip) + real (digits_val fp) / 10 ^ length fp))
              else Inl ValueError))"

section \<open>Dates\<close>

definition is_leap :: "nat \<Rightarrow> bool" where
  "is_leap y \<longleftrightarrow> y mod 4 = 0 \<and> (y mod 100 \<noteq> 0 \<or> y mod 400 = 0)"

definition days_in_month :: "nat \<Rightarrow> nat \<Rightarrow> nat" where
  "days_in_month y m =
     (if m = 2 then (if is_leap y then 29 else 28)
      else if m = 4 \<or> m = 6 \<or> m = 9 \<or> m = 11 then 30 else 31)"

text \<open>
  The constructor \<open>datetime(y, m, d)\<close>: \<open>OverflowError\<close> for an argument that does not fit
  a C int, \<open>ValueError\<close> for one out of range, midnight of the day otherwise.
\<close>

definition datetime_new :: "nat \<Rightarrow> nat \<Rightarrow> nat \<Rightarrow> exn + datetime" where
  "datetime_new y m d =
     (if 2147483647 < y \<or> 2147483647 < m \<or> 2147483647 < d then Inl OverflowError
      else if y < 1 \<or> 9999 < y then Inl ValueError
      else if m < 1 \<or> 12 < m then Inl ValueError
      else if d < 1 \<or> days_in_month y m < d then Inl ValueError
      else Inr \<lparr>year = y, month = m, day = d, hour = 0, minute = 0, second = 0,
                microsecond = 0\<rparr>)"

fun lex_less :: "nat list \<Rightarrow> nat list \<Rightarrow> bool" where
  "lex_less (x # xs) (y # ys) = (x < y \<or> (x = y \<and> lex_less xs ys))"
| "lex_less xs ys = False"

definition datetime_fields :: "datetime \<Rightarrow> nat list" where
  "datetime_fields t = [year t, month t, day t, hour t, minute t, second t, microsecond t]"

definition datetime_gt :: "datetime \<Rightarrow> datetime \<Rightarrow> bool" where
  "datetime_gt a b = lex_less (datetime_fields b) (datetime_fields a)"

text \<open>\<open>zpad w n\<close> is \<open>n\<close> in \<open>w\<close> decimal digits, as \<open>'%0wd' % n\<close> for \<open>n < 10 ^ w\<close>.\<close>

definition digit_char :: "nat \<Rightarrow> char" where
  "digit_char n = ''0123456789'' ! (n mod 10)"

primrec zpad :: "nat \<Rightarrow> nat \<Rightarrow> string" where
  "zpad 0 n = []"
| "zpad (Suc w) n = zpad w (n div 10) @ [digit_char n]"

definition isoformat :: "datetime \<Rightarrow> string" where
  "isoformat t =
     zpad 4 (year t) @ ''-'' @ zpad 2 (month t) @ ''-'' @ zpad 2 (day t) @ ''T'' @
     zpad 2 (hour t) @ '':'' @ zpad 2 (minute t) @ '':'' @ zpad 2 (second t) @
     (if microsecond t \<noteq> 0 then ''.'' @ zpad 6 (microsecond t) else [])"

section \<open>The record\<close>

text \<open>
  A message of the error or warning list: the text of an exception (\<open>str(e)\<close>), the
  warning of an unparsable written amount, or the warning of a low-confidence match. The
  model keeps the values the f-strings format.
\<close>

datatype message =
    ErrorText exn
  | CouldNotParse string
  | LowConfidence real

text \<open>
  An entry of the county table. The program only copies a tax rate, from the table to the
  record and to the dictionary, so the rate is kept as the number it stands for.
\<close>

record county_info =
  name :: string
  tax_rate :: real

record DeedData =
  doc_id :: "string option"
  county_raw :: "string option"
  county_normalized :: "string option"
  state :: "string option"
  date_signed :: "datetime option"
  date_recorded :: "datetime option"
  grantor :: "string option"
  grantee :: "string option"
  amount_numeric :: "pyfloat option"
  amount_written :: "string option"
  apn :: "string option"
  status :: "string option"
  tax_rate :: "real option"
  errors :: "message list"
  warnings :: "message list"

text \<open>The values of the dictionary \<open>to_dict\<close> returns.\<close>

datatype pyval =
    PyNone
  | PyStr string
  | PyFloat pyfloat
  | PyList "message list"

definition str_or_none :: "string option \<Rightarrow> pyval" where
  "str_or_none v = (case v of None \<Rightarrow> PyNone | Some s \<Rightarrow> PyStr s)"

definition float_or_none :: "pyfloat option \<Rightarrow> pyval" where
  "float_or_none v = (case v of None \<Rightarrow> PyNone | Some x \<Rightarrow> PyFloat x)"

text \<open>A datetime is always true in a condition, so only \<open>None\<close> takes the else branch.\<close>

definition iso_or_none :: "datetime option \<Rightarrow> pyval" where
  "iso_or_none v = (case v of None \<Rightarrow> PyNone | Some t \<Rightarrow> PyStr (isoformat t))"

definition to_dict :: "DeedData \<Rightarrow> (string \<times> pyval) list" where
  "to_dict d =
     [(''doc_id'', str_or_none (doc_id d)),
      (''county_raw'', str_or_none (county_raw d)),
      (''county_normalized'', str_or_none (county_normalized d)),
      (''state'', str_or_none (state d)),
      (''date_signed'', iso_or_none (date_signed d)),
      (''date_recorded'', iso_or_none (date_recorded d)),
      (''grantor'', str_or_none (grantor d)),
      (''grantee'', str_or_none (grantee d)),
      (''amount_numeric'', float_or_none (amount_numeric d)),
      (''amount_written'', str_or_none (amount_written d)),
      (''apn'', str_or_none (apn d)),
      (''status'', str_or_none (status d)),
      (''tax_rate'', float_or_none (map_option Finite (DeedData.tax_rate d))),
      (''errors'', PyList (errors d)),
      (''warnings'', PyList (warnings d))]"

text \<open>\<open>DeedData()\<close>: every field unset, both lists empty.\<close>

definition DeedData_init :: DeedData where
  "DeedData_init =
     \<lparr>doc_id = None, county_raw = None, county_normalized = None, state = None,
      date_signed = None, date_recorded = None, grantor = None, grantee = None,
      amount_numeric = None, amount_written = None, apn = None, status = None,
      tax_rate = None, errors = [], warnings = []\<rparr>"

text \<open>\<open>datetime(y, m, d)\<close> for a valid date, as a value.\<close>

definition midnight :: "nat \<Rightarrow> nat \<Rightarrow> nat \<Rightarrow> datetime" where
  "midnight y m d =
     \<lparr>year = y, month = m, day = d, hour = 0, minute = 0, second = 0, microsecond = 0\<rparr>"

section \<open>DeedParser\<close>

text \<open>The shape \<open>Label[^:]*:\s*(value)\<close> under \<open>re.IGNORECASE\<close>.\<close>

definition labelled :: "string \<Rightarrow> rx \<Rightarrow> rx" where
  "labelled l v =
     Seq (LitI l) (Seq (Rep (\<lambda>c. c \<noteq> CHR '':'') 0 None) (Seq (LitI '':'')
       (Seq (Rep isspace 0 None) (Grp v))))"

definition doc_rx :: rx where
  "doc_rx = labelled ''Doc'' (Rep (\<lambda>c. \<not> isspace c) 1 None)"

definition county_rx :: rx where
  "county_rx = labelled ''County'' (Rep (\<lambda>c. c \<noteq> CHR ''|'' \<and> c \<noteq> CHR 0x0A) 1 None)"

definition state_rx :: rx where
  "state_rx = labelled ''State'' (Rep isword 2 (Some 2))"

definition grantor_rx :: rx where
  "grantor_rx = labelled ''Grantor'' (Rep (\<lambda>c. c \<noteq> CHR 0x0A) 1 None)"

definition grantee_rx :: rx where
  "grantee_rx = labelled ''Grantee'' (Rep (\<lambda>c. c \<noteq> CHR 0x0A) 1 None)"

definition apn_rx :: rx where
  "apn_rx = labelled ''APN'' (Rep (\<lambda>c. \<not> isspace c) 1 None)"

definition status_rx :: rx where
  "status_rx = labelled ''Status'' (Rep isword 1 None)"

text \<open>\<open>{pattern}[^\d]*(\d{4})-(\d{2})-(\d{2})\<close>, for a label without metacharacters.\<close>

definition date_rx :: "string \<Rightarrow> rx" where
  "date_rx pattern =
     Seq (LitI pattern) (Seq (Rep (\<lambda>c. \<not> isdigit c) 0 None)
       (Seq (Grp (Rep isdigit 4 (Some 4))) (Seq (LitI ''-'')
         (Seq (Grp (Rep isdigit 2 (Some 2))) (Seq (LitI ''-'')
           (Grp (Rep isdigit 2 (Some 2))))))))"

text \<open>\<open>Amount[^:]*:\s*\$([\d,.]+)\<close>, case-sensitive.\<close>

definition amount_rx :: rx where
  "amount_rx =
     Seq (Lit ''Amount'') (Seq (Rep (\<lambda>c. c \<noteq> CHR '':'') 0 None) (Seq (Lit '':'')
       (Seq (Rep isspace 0 None) (Seq (Lit ''$'')
         (Grp (Rep (\<lambda>c. isdigit c \<or> c = CHR '','' \<or> c = CHR ''.'') 1 None))))))"

text \<open>\<open>\(([^)]*(?:Million|Thousand)[^)]*)\)\<close>, case-sensitive.\<close>

definition written_rx :: rx where
  "written_rx =
     Seq (Lit ''('')
       (Seq (Grp (Seq (Rep (\<lambda>c. c \<noteq> CHR '')'') 0 None)
                 (Seq (Alt (Lit ''Million'') (Lit ''Thousand''))
                      (Rep (\<lambda>c. c \<noteq> CHR '')'') 0 None))))
            (Lit '')''))"

definition extract_field :: "string \<Rightarrow> rx \<Rightarrow> exn + string option" where
  "extract_field text pattern =
     (case re_search pattern text of
        None \<Rightarrow> Inr None
      | Some caps \<Rightarrow> bind (group caps 1) (\<lambda>g. Inr (Some (strip g))))"

text \<open>\<open>try: ... except ValueError:\<close> with the value of the handler.\<close>

definition except_ValueError :: "exn + 'a \<Rightarrow> 'a \<Rightarrow> exn + 'a" where
  "except_ValueError x handler =
     (case x of Inl ValueError \<Rightarrow> Inr handler | Inl e \<Rightarrow> Inl e | Inr v \<Rightarrow> Inr v)"

definition parse_date :: "string \<Rightarrow> string \<Rightarrow> exn + datetime option" where
  "parse_date text pattern =
     (case re_search (date_rx pattern) text of
        None \<Rightarrow> Inr None
      | Some caps \<Rightarrow>
          except_ValueError
            (bind (group caps 1) (\<lambda>g1. bind (py_int g1) (\<lambda>y.
             bind (group caps 2) (\<lambda>g2. bind (py_int g2) (\<lambda>m.
             bind (group caps 3) (\<lambda>g3. bind (py_int g3) (\<lambda>d.
             bind (datetime_new y m d) (\<lambda>t. Inr (Some t)))))))))
            None)"

text \<open>
  The two blocks of \<open>parse\<close> that extract the amounts: the numeric amount with its
  separators removed and converted, unset when the conversion raises \<open>ValueError\<close>; the
  written amount as the trimmed contents of the parenthesised expression.
\<close>

definition parse_amount_numeric :: "string \<Rightarrow> exn + pyfloat option" where
  "parse_amount_numeric text =
     (case re_search amount_rx text of
        None \<Rightarrow> Inr None
      | Some caps \<Rightarrow>
          except_ValueError
            (bind (group caps 1) (\<lambda>g. bind (py_float (remove_char (CHR '','') g))
               (\<lambda>x. Inr (Some x))))
            None)"

definition parse_amount_written :: "string \<Rightarrow> exn + string option" where
  "parse_amount_written text =
     (case re_search written_rx text of
        None \<Rightarrow> Inr None
      | Some caps \<Rightarrow> bind (group caps 1) (\<lambda>g. Inr (Some (strip g))))"

definition parse :: "string \<Rightarrow> exn + DeedData" where
  "parse raw_text =
     bind (extract_field raw_text doc_rx) (\<lambda>v_doc_id.
     bind (extract_field raw_text county_rx) (\<lambda>v_county_raw.
     bind (extract_field raw_text state_rx) (\<lambda>v_state.
     bind (parse_date raw_text ''Date Signed'') (\<lambda>v_date_signed.
     bind (parse_date raw_text ''Date Recorded'') (\<lambda>v_date_recorded.
     bind (extract_field raw_text grantor_rx) (\<lambda>v_grantor.
     bind (extract_field raw_text grantee_rx) (\<lambda>v_grantee.
     bind (extract_field raw_text apn_rx) (\<lambda>v_apn.
     bind (extract_field raw_text status_rx) (\<lambda>v_status.
     bind (parse_amount_numeric raw_text) (\<lambda>v_amount_numeric.
     bind (parse_amount_written raw_text) (\<lambda>v_amount_written.
     Inr \<lparr>doc_id = v_doc_id, county_raw = v_county_raw, county_normalized = None,
          state = v_state, date_signed = v_date_signed, date_recorded = v_date_recorded,
          grantor = v_grantor, grantee = v_grantee, amount_numeric = v_amount_numeric,
          amount_written = v_amount_written, apn = v_apn, status = v_status,
          tax_rate = None, errors = [], warnings = []\<rparr>)))))))))))"

section \<open>The similarity ratio of difflib\<close>

text \<open>
  \<open>difflib.SequenceMatcher(None, a, b).ratio()\<close> for a text \<open>b\<close> shorter than 200
  characters, where the automatic junk heuristic is off: the longest block the two texts
  share, earliest in \<open>a\<close> and then earliest in \<open>b\<close> among the longest, then the same to
  the left and to the right of it; the ratio is twice the number of matched characters
  over the two lengths together.
\<close>

fun common_prefix :: "string \<Rightarrow> string \<Rightarrow> nat" where
  "common_prefix (x # xs) (y # ys) = (if x = y then Suc (common_prefix xs ys) else 0)"
| "common_prefix xs ys = 0"

definition better_block :: "string \<Rightarrow> string \<Rightarrow> nat \<times> nat \<times> nat \<Rightarrow> nat \<times> nat \<Rightarrow> nat \<times> nat \<times> nat" where
  "better_block a b best pos =
     (case best of (besti, bestj, bestsize) \<Rightarrow>
        (case pos of (i, j) \<Rightarrow>
           let k = common_prefix (drop i a) (drop j b)
           in if k > bestsize then (i, j, k) else (besti, bestj, bestsize)))"

definition find_longest_match :: "string \<Rightarrow> string \<Rightarrow> nat \<times> nat \<times> nat" where
  "find_longest_match a b =
     foldl (better_block a b) (0, 0, 0) (List.product [0..<length a] [0..<length b])"

lemma better_block_fold:
  "foldl (better_block a b) best ps = (i, j, k) \<Longrightarrow>
   (i, j, k) = best \<or> ((i, j) \<in> set ps \<and> k = common_prefix (drop i a) (drop j b))"
proof (induction ps arbitrary: best)
  case Nil
  then show ?case by simp
next
  case (Cons p ps)
  from Cons.IH [OF Cons.prems [simplified]]
  show ?case
    by (auto simp: better_block_def Let_def split: prod.splits if_splits)
qed

lemma find_longest_match_inside:
  assumes "find_longest_match a b = (i, j, k)" and "k \<noteq> 0"
  shows "i < length a \<and> j < length b"
  using better_block_fold [OF assms(1) [unfolded find_longest_match_def]] assms(2)
  by auto

function matching_size :: "string \<Rightarrow> string \<Rightarrow> nat" where
  "matching_size a b =
     (case find_longest_match a b of (i, j, k) \<Rightarrow>
        if k = 0 then 0
        else k + matching_size (take i a) (take j b)
               + matching_size (drop (i + k) a) (drop (j + k) b))"
  by pat_completeness auto
termination matching_size
proof (relation "measure (\<lambda>(a, b). length a + length b)")
  show "wf (measure (\<lambda>(a, b). length a + length b))" by simp
next
  fix a b :: string and x y i j k
  assume "(i, y) = find_longest_match a b" and "(j, k) = y" and "k \<noteq> 0"
  then have "find_longest_match a b = (i, j, k)" by simp
  from find_longest_match_inside [OF this \<open>k \<noteq> 0\<close>]
  show "((take i a, take j b), (a, b)) \<in> measure (\<lambda>(a, b). length a + length b)"
    by simp
next
  fix a b :: string and x y i j k
  assume "(i, y) = find_longest_match a b" and "(j, k) = y" and "k \<noteq> 0"
  then have "find_longest_match a b = (i, j, k)" by simp
  from find_longest_match_inside [OF this \<open>k \<noteq> 0\<close>]
  show "((drop (i + k) a, drop (j + k) b), (a, b)) \<in> measure (\<lambda>(a, b). length a + length b)"
    using \<open>k \<noteq> 0\<close> by simp arith
qed

declare matching_size.simps [simp del]

definition sequence_ratio :: "string \<Rightarrow> string \<Rightarrow> real" where
  "sequence_ratio a b =
     (if length a + length b = 0 then 1.0
      else 2.0 * real (matching_size a b) / real (length a + length b))"

section \<open>CountyMatcher\<close>

text \<open>
  \<open>difflib.SequenceMatcher(None, a, b).ratio()\<close> belongs to the standard library; the
  matcher takes it as the parameter \<open>ratio\<close>, a real number in place of the float.

  The loop of \<open>match_county\<close> over the table. Its two variables \<open>best_match\<close> and
  \<open>best_ratio\<close> are \<open>None\<close> and \<open>0\<close> before the first update and a name with its ratio
  after it; \<open>best\<close> is \<open>None\<close> for the former and \<open>Some (name, ratio)\<close> for the latter.
  Before the first update \<open>best_ratio\<close> is 0, below 0.6, and the loop ends in the raise; so
  a result is returned only after an update, with a name.
\<close>

definition best_ratio :: "(string \<times> real) option \<Rightarrow> real" where
  "best_ratio best = (case best of None \<Rightarrow> 0 | Some (m, r) \<Rightarrow> r)"

definition abbrev_of :: "string \<Rightarrow> string" where
  "abbrev_of n = upper (concat (map (take 1) (str_split n)))"

fun match_loop ::
  "(string \<Rightarrow> string \<Rightarrow> real) \<Rightarrow> string \<Rightarrow> county_info list \<Rightarrow> (string \<times> real) option
     \<Rightarrow> exn + (string \<times> real)" where
  "match_loop ratio raw [] best =
     (if best_ratio best < 0.6 then Inl (CountyLookupError (NoMatchFor raw))
      else case best of
             None \<Rightarrow> Inl (CountyLookupError (NoMatchFor raw))
           | Some (m, r) \<Rightarrow> Inr (m, r))"
| "match_loop ratio raw (county_info # rest) best =
     (let county_name = upper (name county_info)
      in if raw = county_name then Inr (name county_info, 1.0)
         else if remove_char (CHR '' '') (remove_char (CHR ''.'') raw)
                   = abbrev_of (name county_info)
              then Inr (name county_info, 0.95)
         else let r = ratio raw county_name
              in if r > best_ratio best
                 then match_loop ratio raw rest (Some (name county_info, r))
                 else match_loop ratio raw rest best)"

definition match_county ::
  "(string \<Rightarrow> string \<Rightarrow> real) \<Rightarrow> county_info list \<Rightarrow> string option
     \<Rightarrow> exn + (string \<times> real)" where
  "match_county ratio counties_db raw_name =
     (case raw_name of
        None \<Rightarrow> Inl (CountyLookupError CountyNameEmpty)
      | Some raw \<Rightarrow>
          if raw = [] then Inl (CountyLookupError CountyNameEmpty)
          else match_loop ratio (upper (strip raw)) counties_db None)"

fun get_tax_rate :: "county_info list \<Rightarrow> string \<Rightarrow> exn + real" where
  "get_tax_rate [] county_name = Inl (CountyLookupError (CountyNotFound county_name))"
| "get_tax_rate (county_info # rest) county_name =
     (if upper (name county_info) = upper county_name
      then Inr (county_info.tax_rate county_info)
      else get_tax_rate rest county_name)"

section \<open>DeedValidator\<close>

text \<open>\<open>(\d+(?:\.\d+)?)\s*Million\<close> and \<open>(\d+(?:\.\d+)?)\s*Thousand\<close>.\<close>

definition unit_rx :: "string \<Rightarrow> rx" where
  "unit_rx u =
     Seq (Grp (Seq (Rep isdigit 1 None) (Opt (Seq (Lit ''.'') (Rep isdigit 1 None)))))
       (Seq (Rep isspace 0 None) (Lit u))"

text \<open>
  One of the two \<open>if\<close> blocks of \<open>_parse_written_amount\<close>, adding to \<open>amount\<close>. The
  factor is the integer \<open>1_000_000\<close> or \<open>1_000\<close> as a float; the product and the sum are
  each rounded.
\<close>

definition add_component :: "string \<Rightarrow> pyfloat \<Rightarrow> string \<Rightarrow> pyfloat \<Rightarrow> exn + pyfloat" where
  "add_component u factor written amount =
     (if contains u written
      then (case re_search (unit_rx u) written of
              None \<Rightarrow> Inr amount
            | Some caps \<Rightarrow>
                bind (group caps 1) (\<lambda>g. bind (py_float g)
                  (\<lambda>x. Inr (fadd amount (fmul x factor)))))
      else Inr amount)"

definition parse_written_amount :: "string \<Rightarrow> exn + pyfloat option" where
  "parse_written_amount written =
     bind (add_component ''Million'' (Finite 1000000) written (Finite 0.0)) (\<lambda>amount1.
     bind (add_component ''Thousand'' (Finite 1000) written amount1) (\<lambda>amount.
     Inr (if fgt amount (Finite 0) then Some amount else None)))"

definition validate_date_logic :: "DeedData \<Rightarrow> exn + unit" where
  "validate_date_logic deed =
     (case date_signed deed of
        None \<Rightarrow> Inr ()
      | Some signed \<Rightarrow>
          (case date_recorded deed of
             None \<Rightarrow> Inr ()
           | Some recorded \<Rightarrow>
               if datetime_gt recorded signed then Inl (DateLogicError recorded signed)
               else Inr ()))"

text \<open>
  \<open>not deed.amount_numeric\<close> holds for \<open>None\<close> and for zero, \<open>not deed.amount_written\<close>
  for \<open>None\<close> and for the empty text. The difference is the rounded one, and the
  literal \<open>0.01\<close> is the double nearest to it. The warning is appended only on a path
  that returns, so a raise leaves the record as it was.
\<close>

definition validate_amount_reconciliation :: "DeedData \<Rightarrow> exn + DeedData" where
  "validate_amount_reconciliation deed =
     (case amount_numeric deed of
        None \<Rightarrow> Inr deed
      | Some numeric \<Rightarrow>
          if numeric = Finite 0 then Inr deed
          else (case amount_written deed of
                  None \<Rightarrow> Inr deed
                | Some written \<Rightarrow>
                    if written = [] then Inr deed
                    else bind (parse_written_amount written) (\<lambda>written_num.
                      case written_num of
                        None \<Rightarrow>
                          Inr (deed\<lparr>warnings := warnings deed @ [CouldNotParse written]\<rparr>)
                      | Some w \<Rightarrow>
                          let discrepancy = fabs (fsub numeric w)
                          in if fgt discrepancy (double_of_real 0.01)
                             then Inl (AmountMismatchError numeric written discrepancy)
                             else Inr deed)))"

text \<open>\<open>except CountyLookupError as e: deed.warnings.append(str(e))\<close>, on the record as
  it is when the exception arrives.\<close>

definition except_CountyLookupError :: "DeedData \<Rightarrow> exn \<Rightarrow> exn + DeedData" where
  "except_CountyLookupError deed e =
     (case e of
        CountyLookupError f \<Rightarrow> Inr (deed\<lparr>warnings := warnings deed @ [ErrorText e]\<rparr>)
      | _ \<Rightarrow> Inl e)"

definition enrich_county ::
  "(string \<Rightarrow> string \<Rightarrow> real) \<Rightarrow> county_info list \<Rightarrow> DeedData \<Rightarrow> exn + DeedData" where
  "enrich_county ratio counties_db deed =
     (if county_raw deed \<noteq> None \<and> county_raw deed \<noteq> Some []
      then (case match_county ratio counties_db (county_raw deed) of
              Inl e \<Rightarrow> except_CountyLookupError deed e
            | Inr (normalized, confidence) \<Rightarrow>
                let deed1 = deed\<lparr>county_normalized := Some normalized\<rparr>
                in (case get_tax_rate counties_db normalized of
                      Inl e \<Rightarrow> except_CountyLookupError deed1 e
                    | Inr rate \<Rightarrow>
                        let deed2 = deed1\<lparr>tax_rate := Some rate\<rparr>
                        in if confidence < 0.9
                           then Inr (deed2\<lparr>warnings :=
                                       warnings deed2 @ [LowConfidence confidence]\<rparr>)
                           else Inr deed2))
      else Inr deed)"

text \<open>
  \<open>except ValidationError as e: deed.errors.append(str(e))\<close>, on the record as it is
  when the exception arrives; any other exception leaves \<open>validate\<close>. The two checks
  change nothing before they raise, and enrichment handles its own lookup errors.
\<close>

definition except_ValidationError :: "DeedData \<Rightarrow> exn \<Rightarrow> exn + DeedData" where
  "except_ValidationError deed e =
     (if is_ValidationError e then Inr (deed\<lparr>errors := errors deed @ [ErrorText e]\<rparr>)
      else Inl e)"

definition validate ::
  "(string \<Rightarrow> string \<Rightarrow> real) \<Rightarrow> county_info list \<Rightarrow> DeedData \<Rightarrow> exn + DeedData" where
  "validate ratio counties_db deed =
     (case validate_date_logic deed of
        Inl e \<Rightarrow> except_ValidationError deed e
      | Inr u \<Rightarrow>
          (case validate_amount_reconciliation deed of
             Inl e \<Rightarrow> except_ValidationError deed e
           | Inr deed1 \<Rightarrow>
               (case enrich_county ratio counties_db deed1 of
                  Inl e \<Rightarrow> except_ValidationError deed1 e
                | Inr deed2 \<Rightarrow> Inr deed2)))"

section \<open>BadDeedValidator\<close>

record report =
  report_status :: string
  report_deed :: "(string \<times> pyval) list"
  summary_errors :: "message list"
  summary_warnings :: "message list"
  summary_error_count :: nat
  summary_warning_count :: nat

definition process_deed ::
  "(string \<Rightarrow> string \<Rightarrow> real) \<Rightarrow> county_info list \<Rightarrow> string \<Rightarrow> exn + DeedData" where
  "process_deed ratio counties_db raw_ocr_text =
     bind (parse raw_ocr_text) (\<lambda>deed. validate ratio counties_db deed)"

text \<open>The dictionary \<open>process_and_report\<close> builds from the validated record.\<close>

definition report_of :: "DeedData \<Rightarrow> report" where
  "report_of deed =
     \<lparr>report_status = (if errors deed = [] then ''APPROVED'' else ''REJECTED''),
      report_deed = to_dict deed,
      summary_errors = errors deed,
      summary_warnings = warnings deed,
      summary_error_count = length (errors deed),
      summary_warning_count = length (warnings deed)\<rparr>"

definition process_and_report ::
  "(string \<Rightarrow> string \<Rightarrow> real) \<Rightarrow> county_info list \<Rightarrow> string \<Rightarrow> exn + report" where
  "process_and_report ratio counties_db raw_ocr_text =
     bind (process_deed ratio counties_db raw_ocr_text) (\<lambda>deed. Inr (report_of deed))"

section \<open>Notions for the statements\<close>

text \<open>A reference table of one entry, for the examples.\<close>

definition santa_clara_db :: "county_info list" where
  "santa_clara_db = [\<lparr>name = ''Santa Clara'', tax_rate = 0.0125\<rparr>]"

text \<open>
  The two tests of the loop of \<open>match_county\<close> that return at once, on the stripped and
  upper-cased input: equality with the entry's upper-cased name, and equality of the input
  without periods and spaces with the entry's initials.
\<close>

definition rule_fires :: "string \<Rightarrow> county_info \<Rightarrow> bool" where
  "rule_fires raw ci \<longleftrightarrow>
     raw = upper (name ci)
     \<or> remove_char (CHR '' '') (remove_char (CHR ''.'') raw) = abbrev_of (name ci)"

text \<open>Two more reference tables for the examples.\<close>

definition two_county_db :: "county_info list" where
  "two_county_db = [\<lparr>name = ''Santa Clara'', tax_rate = 0.0125\<rparr>,
                    \<lparr>name = ''SC'', tax_rate = 0.01\<rparr>]"

definition bay_db :: "county_info list" where
  "bay_db = [\<lparr>name = ''Santa Clara'', tax_rate = 0.0125\<rparr>,
             \<lparr>name = ''Alameda'', tax_rate = 0.011\<rparr>]"

text \<open>
  The number of capture groups of a pattern, and the patterns in which every match sets
  every group (no group under an optional part, the same groups on both sides of an
  alternation). The patterns of the program are of this kind.
\<close>

fun ngroups :: "rx \<Rightarrow> nat" where
  "ngroups (Seq a b) = ngroups a + ngroups b"
| "ngroups (Alt a b) = ngroups a"
| "ngroups (Grp r) = Suc (ngroups r)"
| "ngroups r = 0"

fun linear :: "rx \<Rightarrow> bool" where
  "linear (Seq a b) \<longleftrightarrow> linear a \<and> linear b"
| "linear (Alt a b) \<longleftrightarrow> linear a \<and> linear b \<and> ngroups a = ngroups b"
| "linear (Opt r) \<longleftrightarrow> linear r \<and> ngroups r = 0"
| "linear (Grp r) \<longleftrightarrow> linear r"
| "linear r \<longleftrightarrow> True"

text \<open>What the constructor \<open>datetime(y, m, d)\<close> accepts: a calendar date, at midnight.\<close>

definition valid_date :: "datetime \<Rightarrow> bool" where
  "valid_date t \<longleftrightarrow>
     1 \<le> year t \<and> year t \<le> 9999 \<and> 1 \<le> month t \<and> month t \<le> 12
     \<and> 1 \<le> day t \<and> day t \<le> days_in_month (year t) (month t)
     \<and> hour t = 0 \<and> minute t = 0 \<and> second t = 0 \<and> microsecond t = 0"

section \<open>Which exceptions the steps raise\<close>

lemma group_error: "group caps n = Inl e \<Longrightarrow> e = IndexError"
  by (auto simp: group_def split: if_splits)

lemma py_float_error: "py_float s = Inl e \<Longrightarrow> e = ValueError"
  by (auto simp: py_float_def Let_def split: list.splits if_splits)

lemma py_int_error: "py_int s = Inl e \<Longrightarrow> e = ValueError"
  by (auto simp: py_int_def split: if_splits)

lemma match_loop_error:
  "match_loop ratio raw db best = Inl e \<Longrightarrow> e = CountyLookupError (NoMatchFor raw)"
  by (induction db arbitrary: best) (auto simp: Let_def split: if_splits option.splits prod.splits)

lemma match_county_error:
  "match_county ratio db r = Inl e \<Longrightarrow> \<exists>f. e = CountyLookupError f"
  by (auto simp: match_county_def split: option.splits if_splits dest: match_loop_error)

lemma get_tax_rate_error:
  "get_tax_rate db n = Inl e \<Longrightarrow> e = CountyLookupError (CountyNotFound n)"
  by (induction db) (auto split: if_splits)

lemma enrich_county_returns:
  "\<exists>d'. enrich_county ratio db d = Inr d' \<and> errors d' = errors d"
  by (auto simp: enrich_county_def except_CountyLookupError_def Let_def
      split: sum.splits prod.splits exn.splits
      dest: match_county_error get_tax_rate_error)

lemma amount_reconciliation_errors:
  "validate_amount_reconciliation d = Inr d' \<Longrightarrow> errors d' = errors d"
  by (auto simp: validate_amount_reconciliation_def bind_def Let_def
      split: option.splits if_splits sum.splits)

lemma add_component_error:
  "add_component u f w a = Inl e \<Longrightarrow> e = IndexError \<or> e = ValueError"
  by (auto simp: add_component_def bind_def split: if_splits option.splits sum.splits
      dest: group_error py_float_error)

lemma parse_written_amount_error:
  "parse_written_amount w = Inl e \<Longrightarrow> e = IndexError \<or> e = ValueError"
  by (auto simp: parse_written_amount_def bind_def split: sum.splits dest: add_component_error)

lemma amount_reconciliation_raises:
  "validate_amount_reconciliation d = Inl e \<Longrightarrow> is_ValidationError e \<Longrightarrow>
   \<exists>n w x. e = AmountMismatchError n w x"
  by (auto simp: validate_amount_reconciliation_def bind_def Let_def
      split: option.splits if_splits sum.splits dest: parse_written_amount_error)

lemma date_logic_raises:
  "validate_date_logic d = Inl e \<longleftrightarrow>
   (\<exists>s r. date_signed d = Some s \<and> date_recorded d = Some r \<and> datetime_gt r s
      \<and> e = DateLogicError r s)"
  by (auto simp: validate_date_logic_def split: option.splits)

section \<open>The date-order check\<close>

text \<open>
  Claim C1. The date-order check raises a \<open>DateLogicError\<close>, carrying the recorded and the
  signed date, exactly when both dates are present and the recorded date is strictly later
  than the signed one, and it raises nothing else. When it fires, validation returns the
  record with that one message appended to its errors, and the report built from it has
  status \<open>REJECTED\<close>. When it does not fire (a date is absent, or recorded is on or
  before signed), validation adds no \<open>DateLogicError\<close> message.
\<close>

theorem date_logic_error_iff:
  "(validate_date_logic deed = Inl (DateLogicError r s)
      \<longleftrightarrow> date_signed deed = Some s \<and> date_recorded deed = Some r \<and> datetime_gt r s)
   \<and> (validate_date_logic deed = Inl e \<longrightarrow>
        (\<exists>r s. e = DateLogicError r s) \<and>
        (\<exists>d'. validate ratio db deed = Inr d' \<and> errors d' = errors deed @ [ErrorText e]
           \<and> report_status (report_of d') = ''REJECTED''))
   \<and> (validate ratio db deed = Inr d2 \<and> ErrorText (DateLogicError r s) \<in> set (errors d2)
        \<longrightarrow> ErrorText (DateLogicError r s) \<in> set (errors deed)
           \<or> (date_signed deed = Some s \<and> date_recorded deed = Some r \<and> datetime_gt r s))"
proof (intro conjI impI)
  show "validate_date_logic deed = Inl (DateLogicError r s)
      \<longleftrightarrow> date_signed deed = Some s \<and> date_recorded deed = Some r \<and> datetime_gt r s"
    by (auto simp: date_logic_raises)
next
  assume "validate_date_logic deed = Inl e"
  then show "\<exists>r s. e = DateLogicError r s" by (auto simp: date_logic_raises)
next
  assume h: "validate_date_logic deed = Inl e"
  then obtain r s where "e = DateLogicError r s" by (auto simp: date_logic_raises)
  with h show "\<exists>d'. validate ratio db deed = Inr d' \<and> errors d' = errors deed @ [ErrorText e]
           \<and> report_status (report_of d') = ''REJECTED''"
    by (simp add: validate_def except_ValidationError_def report_of_def)
next
  assume h: "validate ratio db deed = Inr d2 \<and> ErrorText (DateLogicError r s) \<in> set (errors d2)"
  show "ErrorText (DateLogicError r s) \<in> set (errors deed)
           \<or> (date_signed deed = Some s \<and> date_recorded deed = Some r \<and> datetime_gt r s)"
  proof (cases "validate_date_logic deed")
    case (Inl e)
    with h show ?thesis
      by (auto simp: validate_def except_ValidationError_def date_logic_raises)
  next
    case (Inr u)
    show ?thesis
    proof (cases "validate_amount_reconciliation deed")
      case (Inl e)
      with Inr h show ?thesis
        using amount_reconciliation_raises [OF Inl]
        by (auto simp: validate_def except_ValidationError_def split: if_splits)
    next
      case d1: (Inr d1)
      from enrich_county_returns [of ratio db d1] obtain d' where
        "enrich_county ratio db d1 = Inr d'" "errors d' = errors d1" by blast
      with Inr d1 h amount_reconciliation_errors [OF d1] show ?thesis
        by (auto simp: validate_def)
    qed
  qed
qed

text \<open>Signed 2020-01-05, recorded 2020-01-10: the check fires and the report is rejected.\<close>

theorem date_logic_error_iff_witness:
  "validate_date_logic
     (DeedData_init\<lparr>date_signed := Some (midnight 2020 1 5),
                    date_recorded := Some (midnight 2020 1 10)\<rparr>)
     = Inl (DateLogicError (midnight 2020 1 10) (midnight 2020 1 5))
   \<and> (\<exists>d'. validate sequence_ratio []
              (DeedData_init\<lparr>date_signed := Some (midnight 2020 1 5),
                             date_recorded := Some (midnight 2020 1 10)\<rparr>) = Inr d'
          \<and> errors d' = [ErrorText (DateLogicError (midnight 2020 1 10) (midnight 2020 1 5))]
          \<and> report_status (report_of d') = ''REJECTED'')"
proof -
  let ?d = "DeedData_init\<lparr>date_signed := Some (midnight 2020 1 5),
                          date_recorded := Some (midnight 2020 1 10)\<rparr>"
  have gt: "datetime_gt (midnight 2020 1 10) (midnight 2020 1 5)"
    by (simp add: datetime_gt_def datetime_fields_def midnight_def)
  have e: "errors ?d = []" by (simp add: DeedData_init_def)
  from gt have fires: "validate_date_logic ?d
      = Inl (DateLogicError (midnight 2020 1 10) (midnight 2020 1 5))"
    using date_logic_error_iff [of ?d "midnight 2020 1 10" "midnight 2020 1 5"]
    by simp
  with e show ?thesis
    using date_logic_error_iff [of ?d "midnight 2020 1 10" "midnight 2020 1 5"
        "DateLogicError (midnight 2020 1 10) (midnight 2020 1 5)" sequence_ratio "[]"]
    by simp
qed

section \<open>Amount reconciliation\<close>

lemmas double_eval = double_of_real_def normalise.simps round_half_even_def Let_def

lemma double_2: "double_of_real 2 = Finite 2"
  by (simp add: double_eval)

lemma double_1000000: "double_of_real 1000000 = Finite 1000000"
  by (simp add: double_eval)

lemma double_2000000: "double_of_real 2000000 = Finite 2000000"
  by (simp add: double_eval)

lemma double_0_01: "double_of_real (1 / 100) = Finite (5764607523034235 / 2 ^ 59)"
  by (simp add: double_eval)

lemma parse_written_2_million:
  "parse_written_amount ''2 Million'' = Inr (Some (Finite 2000000))"
  by (simp add: parse_written_amount_def add_component_def unit_rx_def bind_def group_def
      py_float_def isdigit_def isspace_def digits_val_def digit_val_def Let_def
      double_2 double_2000000)


text \<open>
  Claim C10. A numeric amount that is present but zero, or a written amount that is present
  but empty, makes amount reconciliation return at once with the record unchanged, as an
  absent field does: nothing is raised and no warning is appended, whatever the other
  amount is.
\<close>

theorem amount_reconciliation_skipped:
  "(amount_numeric deed = Some (Finite 0) \<or> amount_written deed = Some []
      \<longrightarrow> validate_amount_reconciliation deed = Inr deed)
   \<and> (amount_numeric deed = None \<or> amount_written deed = None
      \<longrightarrow> validate_amount_reconciliation deed = Inr deed)"
  by (auto simp: validate_amount_reconciliation_def split: option.splits)

text \<open>Amount zero against ``2 Million'', and amount 5 against the empty text.\<close>

theorem amount_reconciliation_skipped_witness:
  "validate_amount_reconciliation
     (DeedData_init\<lparr>amount_numeric := Some (Finite 0), amount_written := Some ''2 Million''\<rparr>)
   = Inr (DeedData_init\<lparr>amount_numeric := Some (Finite 0), amount_written := Some ''2 Million''\<rparr>)
   \<and> validate_amount_reconciliation
     (DeedData_init\<lparr>amount_numeric := Some (Finite 5), amount_written := Some []\<rparr>)
   = Inr (DeedData_init\<lparr>amount_numeric := Some (Finite 5), amount_written := Some []\<rparr>)"
  using amount_reconciliation_skipped
    [of "DeedData_init\<lparr>amount_numeric := Some (Finite 0), amount_written := Some ''2 Million''\<rparr>"]
    amount_reconciliation_skipped
    [of "DeedData_init\<lparr>amount_numeric := Some (Finite 5), amount_written := Some []\<rparr>"]
  by simp




lemma py_float_0_1251:
  "py_float ''0.1251'' = Inr (Finite (563400313384049 / 2 ^ 52))"
  by (simp add: py_float_def isdigit_def digits_val_def digit_val_def double_eval)

lemma fmul_0_1251_million:
  "fmul (Finite (563400313384049 / 2 ^ 52)) (Finite 1000000)
     = Finite (8596806539673599 / 2 ^ 36)"
  by (simp add: double_eval)






lemma discrepancy_1000000:
  "fabs (fsub (Finite 1000000) (Finite 2000000)) = Finite 1000000"
  by (simp add: fsub_def double_eval)




section \<open>The order of the checks\<close>

lemma match_santa_clara_exact:
  "match_county ratio santa_clara_db (Some ''Santa Clara'') = Inr (''Santa Clara'', 1)"
  by (simp add: match_county_def santa_clara_db_def upper_def strip_def isspace_def
      upper_char_def with_bit5_def Let_def)

lemma tax_rate_santa_clara:
  "get_tax_rate santa_clara_db ''Santa Clara'' = Inr 0.0125"
  by (simp add: santa_clara_db_def)

text \<open>
  Claim C2 as stated fails: when the date-order check fails, jurisdiction enrichment does
  not run. The record below has a date violation and a county that the table holds; after
  validation its normalized county and tax rate are still unset, though enrichment alone
  would set them.
\<close>

theorem enrichment_skipped_counterexample:
  "(\<exists>d'. validate sequence_ratio santa_clara_db
            (DeedData_init\<lparr>county_raw := Some ''Santa Clara'',
                           date_signed := Some (midnight 2020 1 5),
                           date_recorded := Some (midnight 2020 1 10)\<rparr>) = Inr d'
         \<and> errors d' = [ErrorText (DateLogicError (midnight 2020 1 10) (midnight 2020 1 5))]
         \<and> county_normalized d' = None \<and> DeedData.tax_rate d' = None \<and> warnings d' = [])
   \<and> (\<exists>d''. enrich_county sequence_ratio santa_clara_db
            (DeedData_init\<lparr>county_raw := Some ''Santa Clara'',
                           date_signed := Some (midnight 2020 1 5),
                           date_recorded := Some (midnight 2020 1 10)\<rparr>) = Inr d''
         \<and> county_normalized d'' = Some ''Santa Clara'')"
  by (simp add: validate_def validate_date_logic_def datetime_gt_def datetime_fields_def
      midnight_def except_ValidationError_def DeedData_init_def enrich_county_def
      match_santa_clara_exact tax_rate_santa_clara Let_def)

text \<open>
  Claim C2, amended. The first failing check among date-order and amount reconciliation
  appends exactly one error message and ends the pass: the record is otherwise unchanged,
  so the other sanity check and jurisdiction enrichment are both skipped. When neither
  check fails, validation is enrichment of the record the amount check returned;
  enrichment returns and leaves the errors as they were, and a failed lookup of the
  county is appended to the warnings.
\<close>

theorem validate_short_circuit:
  "(validate_date_logic deed = Inl e \<longrightarrow>
      validate ratio db deed = Inr (deed\<lparr>errors := errors deed @ [ErrorText e]\<rparr>))
   \<and> (validate_date_logic deed = Inr () \<and> validate_amount_reconciliation deed = Inl e
        \<and> is_ValidationError e \<longrightarrow>
      validate ratio db deed = Inr (deed\<lparr>errors := errors deed @ [ErrorText e]\<rparr>))
   \<and> (validate_date_logic deed = Inr () \<and> validate_amount_reconciliation deed = Inr d1 \<longrightarrow>
      validate ratio db deed = enrich_county ratio db d1
      \<and> (\<exists>d2. enrich_county ratio db d1 = Inr d2 \<and> errors d2 = errors deed))
   \<and> (county_raw d1 = Some raw \<and> raw \<noteq> [] \<and> match_county ratio db (Some raw) = Inl e \<longrightarrow>
      enrich_county ratio db d1 = Inr (d1\<lparr>warnings := warnings d1 @ [ErrorText e]\<rparr>))"
proof (intro conjI impI)
  assume h: "validate_date_logic deed = Inl e"
  then obtain r s where "e = DateLogicError r s" by (auto simp: date_logic_raises)
  with h show "validate ratio db deed = Inr (deed\<lparr>errors := errors deed @ [ErrorText e]\<rparr>)"
    by (simp add: validate_def except_ValidationError_def)
next
  assume "validate_date_logic deed = Inr () \<and> validate_amount_reconciliation deed = Inl e
        \<and> is_ValidationError e"
  then show "validate ratio db deed = Inr (deed\<lparr>errors := errors deed @ [ErrorText e]\<rparr>)"
    by (simp add: validate_def except_ValidationError_def)
next
  assume h: "validate_date_logic deed = Inr () \<and> validate_amount_reconciliation deed = Inr d1"
  from enrich_county_returns [of ratio db d1] obtain d2 where
    d2: "enrich_county ratio db d1 = Inr d2" "errors d2 = errors d1" by blast
  from h d2 show "validate ratio db deed = enrich_county ratio db d1"
    by (simp add: validate_def)
  from h d2 amount_reconciliation_errors [of deed d1]
  show "\<exists>d2. enrich_county ratio db d1 = Inr d2 \<and> errors d2 = errors deed"
    by simp
next
  assume h: "county_raw d1 = Some raw \<and> raw \<noteq> [] \<and> match_county ratio db (Some raw) = Inl e"
  then obtain f where "e = CountyLookupError f" using match_county_error by blast
  with h show "enrich_county ratio db d1 = Inr (d1\<lparr>warnings := warnings d1 @ [ErrorText e]\<rparr>)"
    by (simp add: enrich_county_def except_CountyLookupError_def)
qed


lemma amount_mismatch_example:
  "validate_amount_reconciliation
     (DeedData_init\<lparr>amount_numeric := Some (Finite 1000000), amount_written := Some ''2 Million''\<rparr>)
   = Inl (AmountMismatchError (Finite 1000000) ''2 Million'' (Finite 1000000))"
  by (simp add: validate_amount_reconciliation_def DeedData_init_def bind_def
      parse_written_2_million discrepancy_1000000 double_0_01 Let_def)

lemma match_zzyzx_empty:
  "match_county ratio [] (Some ''Zzyzx'') = Inl (CountyLookupError (NoMatchFor ''ZZYZX''))"
  by (simp add: match_county_def best_ratio_def upper_def strip_def isspace_def
      upper_char_def with_bit5_def Let_def)

text \<open>
  A date violation, an amount mismatch, a clean record with a known county, and an
  unknown county on an empty table.
\<close>

theorem validate_short_circuit_witness:
  "validate sequence_ratio santa_clara_db
     (DeedData_init\<lparr>county_raw := Some ''Santa Clara'',
                    date_signed := Some (midnight 2020 1 5),
                    date_recorded := Some (midnight 2020 1 10)\<rparr>)
   = Inr (DeedData_init\<lparr>county_raw := Some ''Santa Clara'',
                    date_signed := Some (midnight 2020 1 5),
                    date_recorded := Some (midnight 2020 1 10),
                    errors := [ErrorText (DateLogicError (midnight 2020 1 10) (midnight 2020 1 5))]\<rparr>)
   \<and> validate sequence_ratio santa_clara_db
     (DeedData_init\<lparr>amount_numeric := Some (Finite 1000000), amount_written := Some ''2 Million''\<rparr>)
   = Inr (DeedData_init\<lparr>amount_numeric := Some (Finite 1000000), amount_written := Some ''2 Million'',
                    errors := [ErrorText (AmountMismatchError (Finite 1000000) ''2 Million'' (Finite 1000000))]\<rparr>)
   \<and> validate sequence_ratio santa_clara_db (DeedData_init\<lparr>county_raw := Some ''Santa Clara''\<rparr>)
   = Inr (DeedData_init\<lparr>county_raw := Some ''Santa Clara'',
                    county_normalized := Some ''Santa Clara'', tax_rate := Some 0.0125\<rparr>)
   \<and> enrich_county sequence_ratio [] (DeedData_init\<lparr>county_raw := Some ''Zzyzx''\<rparr>)
   = Inr (DeedData_init\<lparr>county_raw := Some ''Zzyzx'',
                    warnings := [ErrorText (CountyLookupError (NoMatchFor ''ZZYZX''))]\<rparr>)"
proof -
  let ?a = "DeedData_init\<lparr>county_raw := Some ''Santa Clara'',
                    date_signed := Some (midnight 2020 1 5),
                    date_recorded := Some (midnight 2020 1 10)\<rparr>"
  let ?b = "DeedData_init\<lparr>amount_numeric := Some (Finite 1000000), amount_written := Some ''2 Million''\<rparr>"
  let ?c = "DeedData_init\<lparr>county_raw := Some ''Santa Clara''\<rparr>"
  let ?d = "DeedData_init\<lparr>county_raw := Some ''Zzyzx''\<rparr>"
  have a: "validate_date_logic ?a = Inl (DateLogicError (midnight 2020 1 10) (midnight 2020 1 5))"
    by (simp add: validate_date_logic_def datetime_gt_def datetime_fields_def midnight_def)
  have b: "validate_date_logic ?b = Inr ()"
    by (simp add: validate_date_logic_def DeedData_init_def)
  have c: "validate_date_logic ?c = Inr ()" "validate_amount_reconciliation ?c = Inr ?c"
    by (simp_all add: validate_date_logic_def validate_amount_reconciliation_def DeedData_init_def)
  have c': "enrich_county sequence_ratio santa_clara_db ?c
      = Inr (?c\<lparr>county_normalized := Some ''Santa Clara'', tax_rate := Some 0.0125\<rparr>)"
    by (simp add: enrich_county_def match_santa_clara_exact tax_rate_santa_clara Let_def)
  have d: "county_raw ?d = Some ''Zzyzx''" by simp
  have e: "errors ?a = []" "errors ?b = []" "warnings ?d = []"
    by (simp_all add: DeedData_init_def)
  have 1: "validate sequence_ratio santa_clara_db ?a
      = Inr (?a\<lparr>errors := errors ?a
            @ [ErrorText (DateLogicError (midnight 2020 1 10) (midnight 2020 1 5))]\<rparr>)"
    using a validate_short_circuit [of ?a "DateLogicError (midnight 2020 1 10) (midnight 2020 1 5)"
        sequence_ratio santa_clara_db ?a "[]"]
    by blast
  have 2: "validate sequence_ratio santa_clara_db ?b
      = Inr (?b\<lparr>errors := errors ?b @ [ErrorText (AmountMismatchError (Finite 1000000) ''2 Million'' (Finite 1000000))]\<rparr>)"
    using b amount_mismatch_example
      validate_short_circuit [of ?b "AmountMismatchError (Finite 1000000) ''2 Million'' (Finite 1000000)"
        sequence_ratio santa_clara_db ?b "[]"]
    by simp
  have 3: "validate sequence_ratio santa_clara_db ?c = enrich_county sequence_ratio santa_clara_db ?c"
    using c validate_short_circuit [of ?c ValueError sequence_ratio santa_clara_db ?c "[]"]
    by simp
  have 4: "enrich_county sequence_ratio [] ?d
      = Inr (?d\<lparr>warnings := warnings ?d @ [ErrorText (CountyLookupError (NoMatchFor ''ZZYZX''))]\<rparr>)"
    using d match_zzyzx_empty [of sequence_ratio]
      validate_short_circuit [of ?d "CountyLookupError (NoMatchFor ''ZZYZX'')"
        sequence_ratio "[]" ?d "''Zzyzx''"]
    by simp
  from 1 2 3 4 c' e show ?thesis by simp
qed

section \<open>Serialisation\<close>

lemma length_zpad: "length (zpad w n) = w"
  by (induction w arbitrary: n) auto

lemma zpad_2: "zpad 2 n = [digit_char (n div 10), digit_char n]"
proof -
  have "zpad (Suc (Suc 0)) n = [digit_char (n div 10), digit_char n]" by simp
  then show ?thesis by (simp only: numeral_2_eq_2)
qed

lemma zpad_4:
  "zpad 4 n = [digit_char (n div 1000), digit_char (n div 100), digit_char (n div 10), digit_char n]"
proof -
  have "zpad (Suc (Suc (Suc (Suc 0)))) n
      = [digit_char (n div 1000), digit_char (n div 100), digit_char (n div 10), digit_char n]"
    by (simp add: div_mult2_eq [symmetric])
  moreover have "(4::nat) = Suc (Suc (Suc (Suc 0)))" by simp
  ultimately show ?thesis by (simp only:)
qed

lemma isoformat_midnight:
  "isoformat (midnight y m d) = zpad 4 y @ ''-'' @ zpad 2 m @ ''-'' @ zpad 2 d @ ''T00:00:00''"
  by (simp add: isoformat_def midnight_def zpad_2 digit_char_def)

lemma isoformat_midnight_2020_01_05: "isoformat (midnight 2020 1 5) = ''2020-01-05T00:00:00''"
  by (simp only: isoformat_midnight zpad_2 zpad_4) (simp add: digit_char_def)

lemma isoformat_has_time: "length (isoformat t) \<ge> 19 \<and> isoformat t ! 10 = CHR ''T''"
proof -
  let ?date = "zpad 4 (year t) @ ''-'' @ zpad 2 (month t) @ ''-'' @ zpad 2 (day t)"
  let ?rest = "zpad 2 (hour t) @ '':'' @ zpad 2 (minute t) @ '':'' @ zpad 2 (second t) @
     (if microsecond t \<noteq> 0 then ''.'' @ zpad 6 (microsecond t) else [])"
  have eq: "isoformat t = ?date @ CHR ''T'' # ?rest" by (simp add: isoformat_def)
  have len: "length ?date = 10" by (simp add: length_zpad)
  have "(?date @ CHR ''T'' # ?rest) ! length ?date = CHR ''T''" by (rule nth_append_length)
  with eq len have "isoformat t ! 10 = CHR ''T''" by simp
  moreover have "length (isoformat t) \<ge> 19" by (simp add: isoformat_def length_zpad)
  ultimately show ?thesis by simp
qed

text \<open>
  Claim C8 as stated fails: a date field is a \<open>datetime\<close>, and its \<open>isoformat()\<close> has a
  time component. The signed date 2020-01-05 is serialised as \<open>2020-01-05T00:00:00\<close>.
\<close>

theorem iso_date_counterexample:
  "map_of (to_dict (DeedData_init\<lparr>date_signed := Some (midnight 2020 1 5)\<rparr>)) ''date_signed''
     = Some (PyStr ''2020-01-05T00:00:00'')
   \<and> ''2020-01-05T00:00:00'' \<noteq> ''2020-01-05''"
proof -
  have "map_of (to_dict (DeedData_init\<lparr>date_signed := Some (midnight 2020 1 5)\<rparr>)) ''date_signed''
     = Some (PyStr (isoformat (midnight 2020 1 5)))"
    by (simp add: to_dict_def iso_or_none_def)
  then show ?thesis by (simp only: isoformat_midnight_2020_01_05) simp
qed

text \<open>
  Claim C8, amended. In the serialised record each present date field is rendered as the
  ISO-8601 date and time of the \<open>datetime\<close> (at least 19 characters, with \<open>T\<close> after the
  ten characters of the date), and every unset field is \<open>None\<close>, never an empty string.
\<close>

theorem to_dict_dates_and_none:
  "(date_signed d = Some t \<longrightarrow>
      map_of (to_dict d) ''date_signed'' = Some (PyStr (isoformat t))
      \<and> length (isoformat t) \<ge> 19 \<and> isoformat t ! 10 = CHR ''T'')
   \<and> (date_recorded d = Some t \<longrightarrow>
      map_of (to_dict d) ''date_recorded'' = Some (PyStr (isoformat t)))
   \<and> (date_signed d = None \<longrightarrow> map_of (to_dict d) ''date_signed'' = Some PyNone)
   \<and> (date_recorded d = None \<longrightarrow> map_of (to_dict d) ''date_recorded'' = Some PyNone)
   \<and> (doc_id d = None \<longrightarrow> map_of (to_dict d) ''doc_id'' = Some PyNone)
   \<and> (county_raw d = None \<longrightarrow> map_of (to_dict d) ''county_raw'' = Some PyNone)
   \<and> (county_normalized d = None \<longrightarrow> map_of (to_dict d) ''county_normalized'' = Some PyNone)
   \<and> (state d = None \<longrightarrow> map_of (to_dict d) ''state'' = Some PyNone)
   \<and> (grantor d = None \<longrightarrow> map_of (to_dict d) ''grantor'' = Some PyNone)
   \<and> (grantee d = None \<longrightarrow> map_of (to_dict d) ''grantee'' = Some PyNone)
   \<and> (amount_numeric d = None \<longrightarrow> map_of (to_dict d) ''amount_numeric'' = Some PyNone)
   \<and> (amount_written d = None \<longrightarrow> map_of (to_dict d) ''amount_written'' = Some PyNone)
   \<and> (apn d = None \<longrightarrow> map_of (to_dict d) ''apn'' = Some PyNone)
   \<and> (status d = None \<longrightarrow> map_of (to_dict d) ''status'' = Some PyNone)
   \<and> (DeedData.tax_rate d = None \<longrightarrow> map_of (to_dict d) ''tax_rate'' = Some PyNone)"
  using isoformat_has_time [of t]
  by (simp add: to_dict_def iso_or_none_def str_or_none_def float_or_none_def)

text \<open>A record with only the signed date set.\<close>

theorem to_dict_dates_and_none_witness:
  "map_of (to_dict (DeedData_init\<lparr>date_signed := Some (midnight 2020 1 5)\<rparr>)) ''date_signed''
     = Some (PyStr ''2020-01-05T00:00:00'')
   \<and> map_of (to_dict (DeedData_init\<lparr>date_signed := Some (midnight 2020 1 5)\<rparr>)) ''date_recorded''
     = Some PyNone
   \<and> map_of (to_dict (DeedData_init\<lparr>date_signed := Some (midnight 2020 1 5)\<rparr>)) ''doc_id''
     = Some PyNone"
proof -
  have "date_signed (DeedData_init\<lparr>date_signed := Some (midnight 2020 1 5)\<rparr>)
      = Some (midnight 2020 1 5)"
    and "date_recorded (DeedData_init\<lparr>date_signed := Some (midnight 2020 1 5)\<rparr>) = None"
    and "doc_id (DeedData_init\<lparr>date_signed := Some (midnight 2020 1 5)\<rparr>) = None"
    by (simp_all add: DeedData_init_def)
  with to_dict_dates_and_none
    [of "DeedData_init\<lparr>date_signed := Some (midnight 2020 1 5)\<rparr>" "midnight 2020 1 5"]
  show ?thesis
    by (simp only: isoformat_midnight_2020_01_05)
qed

section \<open>The jurisdiction matcher\<close>

lemma match_loop_rule_fires:
  "ci \<in> set db \<Longrightarrow> rule_fires raw ci \<Longrightarrow> match_loop ratio raw db best \<noteq> Inl e"
proof (induction db arbitrary: best)
  case Nil
  then show ?case by simp
next
  case (Cons a db)
  show ?case
  proof (cases "rule_fires raw a")
    case True
    then show ?thesis by (auto simp: rule_fires_def Let_def)
  next
    case False
    with Cons.prems have "ci \<in> set db" by auto
    from Cons.IH [OF this Cons.prems(2)] False show ?thesis
      by (auto simp: rule_fires_def Let_def)
  qed
qed

lemma match_loop_no_rule_error:
  "\<forall>ci\<in>set db. \<not> rule_fires raw ci \<Longrightarrow>
   (\<exists>e. match_loop ratio raw db best = Inl e)
     \<longleftrightarrow> best_ratio best < 0.6 \<and> (\<forall>ci\<in>set db. ratio raw (upper (name ci)) < 0.6)"
proof (induction db arbitrary: best)
  case Nil
  then show ?case by (auto simp: best_ratio_def split: option.splits)
next
  case (Cons a db)
  from Cons.prems have nf: "\<not> rule_fires raw a" and rest: "\<forall>ci\<in>set db. \<not> rule_fires raw ci"
    by auto
  show ?case
  proof (cases "ratio raw (upper (name a)) > best_ratio best")
    case True
    with nf have "match_loop ratio raw (a # db) best
        = match_loop ratio raw db (Some (name a, ratio raw (upper (name a))))"
      by (simp add: rule_fires_def Let_def)
    with Cons.IH [OF rest, of "Some (name a, ratio raw (upper (name a)))"] True
    show ?thesis by (auto simp: best_ratio_def)
  next
    case False
    with nf have "match_loop ratio raw (a # db) best = match_loop ratio raw db best"
      by (simp add: rule_fires_def Let_def)
    with Cons.IH [OF rest, of best] False show ?thesis by auto
  qed
qed

lemma match_loop_no_rule_result:
  "\<forall>ci\<in>set db. \<not> rule_fires raw ci \<Longrightarrow> match_loop ratio raw db best = Inr (m, c) \<Longrightarrow>
   0.6 \<le> c \<and> best_ratio best \<le> c \<and> (\<forall>ci\<in>set db. ratio raw (upper (name ci)) \<le> c)
   \<and> (best = Some (m, c) \<or> (\<exists>ci\<in>set db. m = name ci \<and> c = ratio raw (upper (name ci))))"
proof (induction db arbitrary: best)
  case Nil
  then show ?case by (auto simp: best_ratio_def split: option.splits if_splits)
next
  case (Cons a db)
  from Cons.prems have nf: "\<not> rule_fires raw a" and rest: "\<forall>ci\<in>set db. \<not> rule_fires raw ci"
    by auto
  show ?case
  proof (cases "ratio raw (upper (name a)) > best_ratio best")
    case True
    with nf Cons.prems(2) have "match_loop ratio raw db (Some (name a, ratio raw (upper (name a))))
        = Inr (m, c)"
      by (simp add: rule_fires_def Let_def)
    from Cons.IH [OF rest this] True show ?thesis by (auto simp: best_ratio_def)
  next
    case False
    with nf Cons.prems(2) have "match_loop ratio raw db best = Inr (m, c)"
      by (simp add: rule_fires_def Let_def)
    from Cons.IH [OF rest this] False show ?thesis by auto
  qed
qed

lemma match_loop_exact_first:
  "\<forall>c\<in>set pre. \<not> rule_fires raw c \<Longrightarrow> raw = upper (name ci) \<Longrightarrow>
   match_loop ratio raw (pre @ ci # post) best = Inr (name ci, 1)"
  by (induction pre arbitrary: best) (auto simp: rule_fires_def Let_def)


lemma matching_size_s_clara: "matching_size ''S. CLARA'' ''SANTA CLARA'' = 7"
  by (simp add: matching_size.simps find_longest_match_def better_block_def Let_def)

lemma matching_size_zzyzx: "matching_size ''ZZYZX'' ''SANTA CLARA'' = 0"
  by (simp add: matching_size.simps find_longest_match_def better_block_def Let_def)

lemma ratio_s_clara: "sequence_ratio ''S. CLARA'' ''SANTA CLARA'' = 14 / 19"
  by (simp add: sequence_ratio_def matching_size_s_clara)

lemma ratio_zzyzx: "sequence_ratio ''ZZYZX'' ''SANTA CLARA'' = 0"
  by (simp add: sequence_ratio_def matching_size_zzyzx)

lemma upper_s_clara: "upper (strip ''S. Clara'') = ''S. CLARA''"
  by (simp add: upper_def strip_def isspace_def upper_char_def with_bit5_def Let_def)

lemma upper_zzyzx: "upper (strip ''Zzyzx'') = ''ZZYZX''"
  by (simp add: upper_def strip_def isspace_def upper_char_def with_bit5_def Let_def)

lemma upper_santa_clara: "upper ''Santa Clara'' = ''SANTA CLARA''"
  by (simp add: upper_def upper_char_def with_bit5_def Let_def)

lemma abbrev_santa_clara: "abbrev_of ''Santa Clara'' = ''SC''"
  by (simp add: abbrev_of_def str_split_def upper_def isspace_def upper_char_def with_bit5_def
      Let_def)

lemma no_rule_s_clara: "\<not> rule_fires ''S. CLARA'' \<lparr>name = ''Santa Clara'', tax_rate = 0.0125\<rparr>"
  by (simp add: rule_fires_def upper_santa_clara abbrev_santa_clara remove_char_def)

lemma no_rule_zzyzx: "\<not> rule_fires ''ZZYZX'' \<lparr>name = ''Santa Clara'', tax_rate = 0.0125\<rparr>"
  by (simp add: rule_fires_def upper_santa_clara abbrev_santa_clara remove_char_def)

lemma match_s_clara:
  "match_county sequence_ratio santa_clara_db (Some ''S. Clara'') = Inr (''Santa Clara'', 14 / 19)"
  using no_rule_s_clara
  by (simp add: match_county_def santa_clara_db_def upper_s_clara rule_fires_def
      upper_santa_clara ratio_s_clara best_ratio_def Let_def)

lemma match_zzyzx:
  "match_county sequence_ratio santa_clara_db (Some ''Zzyzx'')
     = Inl (CountyLookupError (NoMatchFor ''ZZYZX''))"
  using no_rule_zzyzx
  by (simp add: match_county_def santa_clara_db_def upper_zzyzx rule_fires_def
      upper_santa_clara ratio_zzyzx best_ratio_def Let_def)

text \<open>
  Claim C7. \<open>match_county\<close> fails with a \<open>CountyLookupError\<close> in exactly two situations.
  An unset or empty input fails at once, whatever the table. A non-empty input fails exactly
  when neither the exact nor the abbreviation rule fires at any entry and every entry's
  similarity ratio is below 0.6; the error then carries the stripped, upper-cased input.
  Otherwise, when no rule fires, the result is an entry of the table with its ratio as
  confidence, at least 0.6 and at least the ratio of every entry.
\<close>

theorem match_county_failure_iff:
  "match_county ratio db None = Inl (CountyLookupError CountyNameEmpty)
   \<and> match_county ratio db (Some []) = Inl (CountyLookupError CountyNameEmpty)
   \<and> (raw \<noteq> [] \<longrightarrow>
        ((\<exists>e. match_county ratio db (Some raw) = Inl e)
           \<longleftrightarrow> (\<forall>ci\<in>set db. \<not> rule_fires (upper (strip raw)) ci
                  \<and> ratio (upper (strip raw)) (upper (name ci)) < 0.6))
        \<and> (match_county ratio db (Some raw) = Inl e
             \<longrightarrow> e = CountyLookupError (NoMatchFor (upper (strip raw)))))
   \<and> (raw \<noteq> [] \<and> (\<forall>ci\<in>set db. \<not> rule_fires (upper (strip raw)) ci)
        \<and> match_county ratio db (Some raw) = Inr (m, c) \<longrightarrow>
        0.6 \<le> c
        \<and> (\<exists>ci\<in>set db. m = name ci \<and> c = ratio (upper (strip raw)) (upper (name ci)))
        \<and> (\<forall>ci\<in>set db. ratio (upper (strip raw)) (upper (name ci)) \<le> c))"
proof (intro conjI impI)
  show "match_county ratio db None = Inl (CountyLookupError CountyNameEmpty)"
    by (simp add: match_county_def)
  show "match_county ratio db (Some []) = Inl (CountyLookupError CountyNameEmpty)"
    by (simp add: match_county_def)
next
  assume raw: "raw \<noteq> []"
  let ?r = "upper (strip raw)"
  have eq: "match_county ratio db (Some raw) = match_loop ratio ?r db None"
    using raw by (simp add: match_county_def)
  show "(\<exists>e. match_county ratio db (Some raw) = Inl e)
           \<longleftrightarrow> (\<forall>ci\<in>set db. \<not> rule_fires ?r ci \<and> ratio ?r (upper (name ci)) < 0.6)"
  proof (cases "\<forall>ci\<in>set db. \<not> rule_fires ?r ci")
    case True
    from match_loop_no_rule_error [OF True, of ratio None] True eq show ?thesis
      by (auto simp: best_ratio_def)
  next
    case False
    then obtain ci where "ci \<in> set db" "rule_fires ?r ci" by blast
    from match_loop_rule_fires [OF this] eq False show ?thesis by auto
  qed
next
  assume "raw \<noteq> []" and "match_county ratio db (Some raw) = Inl e"
  then show "e = CountyLookupError (NoMatchFor (upper (strip raw)))"
    by (auto simp: match_county_def dest: match_loop_error)
next
  assume h: "raw \<noteq> [] \<and> (\<forall>ci\<in>set db. \<not> rule_fires (upper (strip raw)) ci)
        \<and> match_county ratio db (Some raw) = Inr (m, c)"
  let ?r = "upper (strip raw)"
  from h have "match_loop ratio ?r db None = Inr (m, c)" by (auto simp: match_county_def)
  from match_loop_no_rule_result [OF _ this] h
  have r: "0.6 \<le> c \<and> (\<forall>ci\<in>set db. ratio ?r (upper (name ci)) \<le> c)
     \<and> (\<exists>ci\<in>set db. m = name ci \<and> c = ratio ?r (upper (name ci)))"
    by auto
  from r show "0.6 \<le> c" by simp
  from r show "\<exists>ci\<in>set db. m = name ci \<and> c = ratio ?r (upper (name ci))" by simp
  from r show "\<forall>ci\<in>set db. ratio ?r (upper (name ci)) \<le> c" by simp
qed

text \<open>
  On the table of one entry \<open>Santa Clara\<close>, with the ratio of difflib: \<open>Zzyzx\<close> shares no
  character with it and fails; \<open>S. Clara\<close> has ratio 14/19 and is returned with it.
\<close>

theorem match_county_failure_iff_witness:
  "match_county sequence_ratio santa_clara_db None = Inl (CountyLookupError CountyNameEmpty)
   \<and> match_county sequence_ratio santa_clara_db (Some ''Zzyzx'')
       = Inl (CountyLookupError (NoMatchFor ''ZZYZX''))
   \<and> sequence_ratio ''ZZYZX'' ''SANTA CLARA'' < 0.6
   \<and> match_county sequence_ratio santa_clara_db (Some ''S. Clara'')
       = Inr (''Santa Clara'', sequence_ratio ''S. CLARA'' ''SANTA CLARA'')
   \<and> 0.6 \<le> sequence_ratio ''S. CLARA'' ''SANTA CLARA''"
proof -
  have z: "\<forall>ci\<in>set santa_clara_db. \<not> rule_fires (upper (strip ''Zzyzx'')) ci
      \<and> sequence_ratio (upper (strip ''Zzyzx'')) (upper (name ci)) < 0.6"
    using no_rule_zzyzx
    by (simp add: santa_clara_db_def upper_zzyzx upper_santa_clara ratio_zzyzx)
  have s: "\<forall>ci\<in>set santa_clara_db. \<not> rule_fires (upper (strip ''S. Clara'')) ci"
    using no_rule_s_clara by (simp add: santa_clara_db_def upper_s_clara)
  from z match_county_failure_iff [of sequence_ratio santa_clara_db "''Zzyzx''" _ "''x''" 0]
  obtain e where e: "match_county sequence_ratio santa_clara_db (Some ''Zzyzx'') = Inl e"
    by auto
  with match_county_failure_iff [of sequence_ratio santa_clara_db "''Zzyzx''" e "''x''" 0]
  have 1: "match_county sequence_ratio santa_clara_db (Some ''Zzyzx'')
       = Inl (CountyLookupError (NoMatchFor ''ZZYZX''))"
    by (simp add: upper_zzyzx)
  from s match_s_clara
    match_county_failure_iff [of sequence_ratio santa_clara_db "''S. Clara''" ValueError
      "''Santa Clara''" "14 / 19"]
  have 2: "0.6 \<le> (14 / 19 :: real)" by simp
  from 1 2 match_s_clara show ?thesis
    using match_county_failure_iff [of sequence_ratio santa_clara_db "''S. Clara''" ValueError
      "''Santa Clara''" "14 / 19"]
    by (simp add: ratio_s_clara ratio_zzyzx)
qed


lemma match_sc_two:
  "match_county ratio two_county_db (Some ''SC'') = Inr (''Santa Clara'', 0.95)"
  by (simp add: match_county_def two_county_db_def upper_def strip_def isspace_def
      upper_char_def with_bit5_def abbrev_santa_clara remove_char_def Let_def)

text \<open>
  Claim C6 as stated fails: the rules are tried entry by entry, so an abbreviation match at
  an earlier entry wins over an exact match at a later one. The input \<open>SC\<close> equals the
  name of the second entry and is matched to the first, \<open>Santa Clara\<close>, with confidence
  0.95.
\<close>

theorem exact_match_counterexample:
  "name (two_county_db ! 1) = ''SC'' \<and> upper (strip ''SC'') = upper (name (two_county_db ! 1))
   \<and> match_county sequence_ratio two_county_db (Some ''SC'') = Inr (''Santa Clara'', 0.95)"
  by (simp add: match_sc_two)
     (simp add: two_county_db_def upper_def strip_def isspace_def upper_char_def with_bit5_def
      Let_def)

lemma match_loop_abbrev_first:
  "\<forall>c\<in>set pre. \<not> rule_fires raw c \<Longrightarrow> raw \<noteq> upper (name ci) \<Longrightarrow>
   remove_char (CHR '' '') (remove_char (CHR ''.'') raw) = abbrev_of (name ci) \<Longrightarrow>
   match_loop ratio raw (pre @ ci # post) best = Inr (name ci, 0.95)"
  by (induction pre arbitrary: best) (auto simp: rule_fires_def Let_def)

text \<open>
  Claim C6, amended. For a non-empty input, the first entry of the table at which the exact
  or the abbreviation rule fires decides the result: if the stripped, upper-cased input
  equals its upper-cased name, the result is its canonical name with confidence exactly 1.0
  (the exact rule is tried before the abbreviation rule at that entry, and the similarity
  ratios play no part); if only the abbreviation rule fires there, the confidence is 0.95.
\<close>

theorem exact_match_first:
  assumes "raw \<noteq> []" and "\<forall>c\<in>set pre. \<not> rule_fires (upper (strip raw)) c"
  shows "(upper (strip raw) = upper (name ci) \<longrightarrow>
            match_county ratio (pre @ ci # post) (Some raw) = Inr (name ci, 1.0))
         \<and> (upper (strip raw) \<noteq> upper (name ci)
            \<and> remove_char (CHR '' '') (remove_char (CHR ''.'') (upper (strip raw)))
                = abbrev_of (name ci) \<longrightarrow>
            match_county ratio (pre @ ci # post) (Some raw) = Inr (name ci, 0.95))"
proof (intro conjI impI)
  assume "upper (strip raw) = upper (name ci)"
  from match_loop_exact_first [OF assms(2) this, of ratio post None] assms(1)
  show "match_county ratio (pre @ ci # post) (Some raw) = Inr (name ci, 1.0)"
    by (simp add: match_county_def)
next
  assume h: "upper (strip raw) \<noteq> upper (name ci)
            \<and> remove_char (CHR '' '') (remove_char (CHR ''.'') (upper (strip raw)))
                = abbrev_of (name ci)"
  then have "match_loop ratio (upper (strip raw)) (pre @ ci # post) None = Inr (name ci, 0.95)"
    using match_loop_abbrev_first [OF assms(2), of ci ratio post None] by simp
  with assms(1)
  show "match_county ratio (pre @ ci # post) (Some raw) = Inr (name ci, 0.95)"
    by (simp add: match_county_def)
qed

lemma upper_alameda: "upper (strip '' alameda '') = ''ALAMEDA''"
  by (simp add: upper_def strip_def isspace_def upper_char_def with_bit5_def Let_def)

lemma upper_Alameda: "upper ''Alameda'' = ''ALAMEDA''"
  by (simp add: upper_def upper_char_def with_bit5_def Let_def)

lemma no_rule_alameda: "\<not> rule_fires ''ALAMEDA'' \<lparr>name = ''Santa Clara'', tax_rate = 0.0125\<rparr>"
  by (simp add: rule_fires_def upper_santa_clara abbrev_santa_clara remove_char_def)

lemma upper_s_c: "upper (strip ''s.c.'') = ''S.C.''"
  by (simp add: upper_def strip_def isspace_def upper_char_def with_bit5_def Let_def)

text \<open>
  On the table \<open>Santa Clara\<close>, \<open>Alameda\<close>: \<open>alameda\<close> between spaces matches the second
  entry exactly, and \<open>s.c.\<close> matches the first by its initials.
\<close>

theorem exact_match_first_witness:
  "match_county sequence_ratio bay_db (Some '' alameda '') = Inr (''Alameda'', 1.0)
   \<and> match_county sequence_ratio bay_db (Some ''s.c.'') = Inr (''Santa Clara'', 0.95)"
proof -
  have db: "bay_db = [\<lparr>name = ''Santa Clara'', tax_rate = 0.0125\<rparr>]
      @ \<lparr>name = ''Alameda'', tax_rate = 0.011\<rparr> # []"
    "bay_db = [] @ \<lparr>name = ''Santa Clara'', tax_rate = 0.0125\<rparr>
      # [\<lparr>name = ''Alameda'', tax_rate = 0.011\<rparr>]"
    by (simp_all add: bay_db_def)
  have a: "\<forall>c\<in>set [\<lparr>name = ''Santa Clara'', tax_rate = 0.0125\<rparr>].
      \<not> rule_fires (upper (strip '' alameda '')) c"
    using no_rule_alameda by (simp add: upper_alameda)
  have 1: "match_county sequence_ratio bay_db (Some '' alameda '') = Inr (''Alameda'', 1.0)"
    using exact_match_first [of "'' alameda ''" "[\<lparr>name = ''Santa Clara'', tax_rate = 0.0125\<rparr>]"
        "\<lparr>name = ''Alameda'', tax_rate = 0.011\<rparr>" sequence_ratio "[]", OF _ a]
    by (simp only: db(1) [symmetric]) (simp add: upper_alameda upper_Alameda)
  have 2: "match_county sequence_ratio bay_db (Some ''s.c.'') = Inr (''Santa Clara'', 0.95)"
    using exact_match_first [of "''s.c.''" "[]"
        "\<lparr>name = ''Santa Clara'', tax_rate = 0.0125\<rparr>" sequence_ratio
        "[\<lparr>name = ''Alameda'', tax_rate = 0.011\<rparr>]"]
    by (simp only: db(2) [symmetric])
       (simp add: upper_s_c upper_santa_clara abbrev_santa_clara remove_char_def)
  from 1 2 show ?thesis by simp
qed

text \<open>
  Claim C5 against the code. For \<open>S. Clara\<close> and the entry \<open>Santa Clara\<close> the
  abbreviation rule compares \<open>SCLARA\<close> with the initials \<open>SC\<close> and does not fire, so the
  match is the fuzzy one: confidence 14/19, below 0.9, and enrichment appends the
  low-confidence warning.
\<close>

theorem s_clara_low_confidence:
  "remove_char (CHR '' '') (remove_char (CHR ''.'') (upper (strip ''S. Clara''))) = ''SCLARA''
   \<and> abbrev_of ''Santa Clara'' = ''SC''
   \<and> match_county sequence_ratio santa_clara_db (Some ''S. Clara'')
       = Inr (''Santa Clara'', 14 / 19)
   \<and> enrich_county sequence_ratio santa_clara_db (DeedData_init\<lparr>county_raw := Some ''S. Clara''\<rparr>)
       = Inr (DeedData_init\<lparr>county_raw := Some ''S. Clara'',
                county_normalized := Some ''Santa Clara'', tax_rate := Some 0.0125,
                warnings := [LowConfidence (14 / 19)]\<rparr>)"
  by (simp add: upper_s_clara remove_char_def abbrev_santa_clara match_s_clara
      enrich_county_def tax_rate_santa_clara DeedData_init_def Let_def)

section \<open>Extraction\<close>

lemma rx_match_caps_length:
  "linear r \<Longrightarrow> (s', c') \<in> set (rx_match r s c) \<Longrightarrow> length c' = length c + ngroups r"
proof (induction r arbitrary: s c s' c')
  case (Lit l)
  then show ?case by (auto split: option.splits)
next
  case (LitI l)
  then show ?case by (auto split: option.splits)
next
  case (Rep p lo hi)
  then show ?case by (auto simp: Let_def)
next
  case (Seq r1 r2)
  from Seq.prems(2) obtain s1 c1 where
    1: "(s1, c1) \<in> set (rx_match r1 s c)" and 2: "(s', c') \<in> set (rx_match r2 s1 c1)"
    by auto
  from Seq.prems(1) have "linear r1" "linear r2" by simp_all
  with Seq.IH(1) [OF _ 1] Seq.IH(2) [OF _ 2] show ?case by simp
next
  case (Alt r1 r2)
  then show ?case by auto
next
  case (Opt r)
  then show ?case by auto
next
  case (Grp r)
  from Grp.prems(2) obtain c1 where
    "(s', c1) \<in> set (rx_match r s c)" and "c' = c1 @ [take (length s - length s') s]"
    by auto
  with Grp.IH [of s' c1 s c] Grp.prems(1) show ?case by simp
qed

lemma re_search_caps_length:
  "linear r \<Longrightarrow> re_search r t = Some caps \<Longrightarrow> length caps = ngroups r"
proof (induction t)
  case Nil
  then obtain rest where "(rest, caps) \<in> set (rx_match r [] [])"
    by (auto split: list.splits)
  from rx_match_caps_length [OF Nil.prems(1) this] show ?case by simp
next
  case (Cons x t)
  show ?case
  proof (cases "rx_match r (x # t) []")
    case Nil
    with Cons show ?thesis by simp
  next
    case (Cons p ps)
    with Cons.prems(2) obtain rest where "p = (rest, caps)" by (cases p) auto
    with Cons have "(rest, caps) \<in> set (rx_match r (x # t) [])" by simp
    from rx_match_caps_length [OF Cons.prems(1) this] show ?thesis by simp
  qed
qed

lemma re_search_first:
  "re_search r t = Some caps \<Longrightarrow> \<exists>s rest. (rest, caps) \<in> set (rx_match r s [])"
proof (induction t)
  case Nil
  then obtain rest where "(rest, caps) \<in> set (rx_match r [] [])"
    by (auto split: list.splits)
  then show ?case by blast
next
  case (Cons x t)
  show ?case
  proof (cases "rx_match r (x # t) []")
    case Nil
    with Cons show ?thesis by simp
  next
    case (Cons p ps)
    with Cons.prems obtain rest where "p = (rest, caps)" by (cases p) auto
    with Cons have "(rest, caps) \<in> set (rx_match r (x # t) [])" by simp
    then show ?thesis by blast
  qed
qed

lemma labelled_linear: "linear v \<Longrightarrow> linear (labelled l v) \<and> ngroups (labelled l v) = Suc (ngroups v)"
  by (simp add: labelled_def)

lemma extract_field_returns:
  assumes "linear r" and "ngroups r = 1"
  shows "\<exists>v. extract_field t r = Inr v"
proof (cases "re_search r t")
  case None
  then show ?thesis by (simp add: extract_field_def)
next
  case (Some caps)
  from re_search_caps_length [OF assms(1) Some] assms(2) have "length caps = 1" by simp
  with Some show ?thesis by (simp add: extract_field_def group_def bind_def)
qed

lemma field_patterns:
  "linear doc_rx \<and> ngroups doc_rx = 1" "linear county_rx \<and> ngroups county_rx = 1"
  "linear state_rx \<and> ngroups state_rx = 1" "linear grantor_rx \<and> ngroups grantor_rx = 1"
  "linear grantee_rx \<and> ngroups grantee_rx = 1" "linear apn_rx \<and> ngroups apn_rx = 1"
  "linear status_rx \<and> ngroups status_rx = 1" "linear amount_rx \<and> ngroups amount_rx = 1"
  "linear written_rx \<and> ngroups written_rx = 1"
  by (simp_all add: doc_rx_def county_rx_def state_rx_def grantor_rx_def grantee_rx_def
      apn_rx_def status_rx_def amount_rx_def written_rx_def labelled_def)

lemma parse_amount_written_returns: "\<exists>v. parse_amount_written t = Inr v"
proof (cases "re_search written_rx t")
  case None
  then show ?thesis by (simp add: parse_amount_written_def)
next
  case (Some caps)
  from re_search_caps_length [OF _ Some] field_patterns(9) have "length caps = 1" by simp
  with Some show ?thesis by (simp add: parse_amount_written_def group_def bind_def)
qed

lemma parse_amount_numeric_returns: "\<exists>v. parse_amount_numeric t = Inr v"
proof (cases "re_search amount_rx t")
  case None
  then show ?thesis by (simp add: parse_amount_numeric_def)
next
  case (Some caps)
  from re_search_caps_length [OF _ Some] field_patterns(8) have "length caps = 1" by simp
  with Some show ?thesis
    by (auto simp: parse_amount_numeric_def group_def bind_def except_ValueError_def
        split: sum.splits exn.splits dest: py_float_error)
qed


lemma in_rx_match_Seq:
  "(s', c') \<in> set (rx_match (Seq a b) s c)
     \<longleftrightarrow> (\<exists>s1 c1. (s1, c1) \<in> set (rx_match a s c) \<and> (s', c') \<in> set (rx_match b s1 c1))"
  by auto

lemma in_rx_match_no_group:
  "(s', c') \<in> set (rx_match (LitI l) s c) \<Longrightarrow> c' = c"
  "(s', c') \<in> set (rx_match (Lit l) s c) \<Longrightarrow> c' = c"
  "(s', c') \<in> set (rx_match (Rep p lo hi) s c) \<Longrightarrow> c' = c"
  by (auto simp: Let_def split: option.splits)

lemma in_rx_match_Grp_exact:
  assumes "(s', c') \<in> set (rx_match (Grp (Rep p n (Some n))) s c)"
  shows "\<exists>g. c' = c @ [g] \<and> length g = n"
proof -
  from assms obtain k where k: "n \<le> k" "k \<le> min n (length (takeWhile p s))"
    and s': "s' = drop k s" and c': "c' = c @ [take (length s - length s') s]"
    by (auto simp: Let_def)
  from k have "k = n" "n \<le> length (takeWhile p s)" by simp_all
  moreover have "length (takeWhile p s) \<le> length s" by (rule length_takeWhile_le)
  ultimately have "length (take (length s - length s') s) = n" using s' by simp
  with c' show ?thesis by blast
qed

lemma date_rx_captures:
  assumes "(rest, caps) \<in> set (rx_match (date_rx l) s [])"
  shows "\<exists>y m d. caps = [y, m, d] \<and> length y = 4 \<and> length m = 2 \<and> length d = 2"
proof -
  from assms obtain s1 c1 s2 c2 s3 c3 s4 c4 s5 c5 s6 c6 where
    1: "(s1, c1) \<in> set (rx_match (LitI l) s [])"
    and 2: "(s2, c2) \<in> set (rx_match (Rep (\<lambda>c. \<not> isdigit c) 0 None) s1 c1)"
    and 3: "(s3, c3) \<in> set (rx_match (Grp (Rep isdigit 4 (Some 4))) s2 c2)"
    and 4: "(s4, c4) \<in> set (rx_match (LitI ''-'') s3 c3)"
    and 5: "(s5, c5) \<in> set (rx_match (Grp (Rep isdigit 2 (Some 2))) s4 c4)"
    and 6: "(s6, c6) \<in> set (rx_match (LitI ''-'') s5 c5)"
    and 7: "(rest, caps) \<in> set (rx_match (Grp (Rep isdigit 2 (Some 2))) s6 c6)"
    unfolding date_rx_def in_rx_match_Seq by blast
  from in_rx_match_no_group(1) [OF 1] in_rx_match_no_group(3) [OF 2] have "c2 = []" by simp
  with in_rx_match_Grp_exact [OF 3] obtain y where y: "c3 = [y]" "length y = 4" by auto
  from in_rx_match_no_group(1) [OF 4] y have "c4 = [y]" by simp
  with in_rx_match_Grp_exact [OF 5] obtain m where m: "c5 = [y, m]" "length m = 2" by auto
  from in_rx_match_no_group(1) [OF 6] m have "c6 = [y, m]" by simp
  with in_rx_match_Grp_exact [OF 7] obtain d where "caps = [y, m, d]" "length d = 2" by auto
  with y m show ?thesis by blast
qed

lemma digits_val_snoc: "digits_val (s @ [c]) = 10 * digits_val s + digit_val c"
  by (simp add: digits_val_def)

lemma digits_val_bound: "list_all isdigit s \<Longrightarrow> digits_val s < 10 ^ length s"
proof (induction s rule: rev_induct)
  case Nil
  then show ?case by (simp add: digits_val_def)
next
  case (snoc c s)
  then have "digits_val s < 10 ^ length s" and "digit_val c \<le> 9"
    by (auto simp: isdigit_def digit_val_def Let_def)
  then show ?case by (simp add: digits_val_snoc)
qed

lemma py_int_bound: "py_int s = Inr n \<Longrightarrow> n < 10 ^ length s"
  by (auto simp: py_int_def split: if_splits dest: digits_val_bound)

lemma datetime_new_cases:
  "y < 10 ^ 4 \<Longrightarrow> m < 10 ^ 2 \<Longrightarrow> d < 10 ^ 2 \<Longrightarrow>
   datetime_new y m d = Inl ValueError
   \<or> (\<exists>t. datetime_new y m d = Inr t \<and> valid_date t)"
  by (auto simp: datetime_new_def valid_date_def)

lemma parse_date_returns:
  "\<exists>v. parse_date t l = Inr v \<and> (\<forall>x. v = Some x \<longrightarrow> valid_date x)"
proof (cases "re_search (date_rx l) t")
  case None
  then show ?thesis by (simp add: parse_date_def)
next
  case (Some caps)
  from re_search_first [OF Some] date_rx_captures obtain y m d where
    caps: "caps = [y, m, d]" and len: "length y = 4" "length m = 2" "length d = 2"
    by blast
  have g: "group caps 1 = Inr y" "group caps 2 = Inr m" "group caps 3 = Inr d"
    by (simp_all add: caps group_def)
  show ?thesis
  proof (cases "py_int y")
    case (Inl e)
    with py_int_error [OF Inl] Some g show ?thesis
      by (simp add: parse_date_def bind_def except_ValueError_def)
  next
    case y: (Inr yn)
    show ?thesis
    proof (cases "py_int m")
      case (Inl e)
      with py_int_error [OF Inl] Some g y show ?thesis
        by (simp add: parse_date_def bind_def except_ValueError_def)
    next
      case m: (Inr mn)
      show ?thesis
      proof (cases "py_int d")
        case (Inl e)
        with py_int_error [OF Inl] Some g y m show ?thesis
          by (simp add: parse_date_def bind_def except_ValueError_def)
      next
        case d: (Inr dn)
        from py_int_bound [OF y] py_int_bound [OF m] py_int_bound [OF d] len
        have "yn < 10 ^ 4" "mn < 10 ^ 2" "dn < 10 ^ 2" by simp_all
        from datetime_new_cases [OF this] Some g y m d show ?thesis
          by (auto simp: parse_date_def bind_def except_ValueError_def)
      qed
    qed
  qed
qed

text \<open>The definitions an evaluation of a pattern on a text unfolds.\<close>

lemmas text_defs = isspace_def isdigit_def lower_char_def with_bit5_def Let_def

lemma parse_fields:
  "\<exists>d. parse t = Inr d
     \<and> extract_field t doc_rx = Inr (doc_id d)
     \<and> extract_field t county_rx = Inr (county_raw d)
     \<and> extract_field t state_rx = Inr (state d)
     \<and> parse_date t ''Date Signed'' = Inr (date_signed d)
     \<and> parse_date t ''Date Recorded'' = Inr (date_recorded d)
     \<and> extract_field t grantor_rx = Inr (grantor d)
     \<and> extract_field t grantee_rx = Inr (grantee d)
     \<and> extract_field t apn_rx = Inr (apn d)
     \<and> extract_field t status_rx = Inr (status d)
     \<and> parse_amount_numeric t = Inr (amount_numeric d)
     \<and> parse_amount_written t = Inr (amount_written d)
     \<and> county_normalized d = None \<and> DeedData.tax_rate d = None
     \<and> errors d = [] \<and> warnings d = []"
proof -
  from extract_field_returns field_patterns obtain v1 v2 v3 v6 v7 v8 v9 where
    "extract_field t doc_rx = Inr v1" "extract_field t county_rx = Inr v2"
    "extract_field t state_rx = Inr v3" "extract_field t grantor_rx = Inr v6"
    "extract_field t grantee_rx = Inr v7" "extract_field t apn_rx = Inr v8"
    "extract_field t status_rx = Inr v9"
    by metis
  moreover from parse_date_returns obtain v4 v5 where
    "parse_date t ''Date Signed'' = Inr v4" "parse_date t ''Date Recorded'' = Inr v5"
    by metis
  moreover from parse_amount_numeric_returns parse_amount_written_returns obtain v10 v11 where
    "parse_amount_numeric t = Inr v10" "parse_amount_written t = Inr v11"
    by metis
  ultimately show ?thesis by (simp add: parse_def bind_def)
qed

text \<open>
  Claim C9. For every text, extraction returns a record and raises nothing. Each field of
  the record is what its own pattern extracts from the text, whatever the other fields are.
  A date field that is set holds a valid calendar date, so a label followed by digits that
  are no date (month 13, say) leaves the field unset; and a numeric text after the Amount
  label that does not convert leaves the numeric amount unset.
\<close>

theorem parse_never_raises:
  "\<exists>d. parse t = Inr d
     \<and> extract_field t doc_rx = Inr (doc_id d)
     \<and> extract_field t county_rx = Inr (county_raw d)
     \<and> extract_field t state_rx = Inr (state d)
     \<and> parse_date t ''Date Signed'' = Inr (date_signed d)
     \<and> parse_date t ''Date Recorded'' = Inr (date_recorded d)
     \<and> extract_field t grantor_rx = Inr (grantor d)
     \<and> extract_field t grantee_rx = Inr (grantee d)
     \<and> extract_field t apn_rx = Inr (apn d)
     \<and> extract_field t status_rx = Inr (status d)
     \<and> parse_amount_numeric t = Inr (amount_numeric d)
     \<and> parse_amount_written t = Inr (amount_written d)
     \<and> (\<forall>x. date_signed d = Some x \<longrightarrow> valid_date x)
     \<and> (\<forall>x. date_recorded d = Some x \<longrightarrow> valid_date x)
     \<and> (\<forall>g. re_search amount_rx t = Some [g]
              \<and> py_float (remove_char (CHR '','') g) = Inl ValueError
            \<longrightarrow> amount_numeric d = None)"
proof -
  from parse_fields [of t] obtain d where d: "parse t = Inr d"
    "extract_field t doc_rx = Inr (doc_id d)"
    "extract_field t county_rx = Inr (county_raw d)"
    "extract_field t state_rx = Inr (state d)"
    "parse_date t ''Date Signed'' = Inr (date_signed d)"
    "parse_date t ''Date Recorded'' = Inr (date_recorded d)"
    "extract_field t grantor_rx = Inr (grantor d)"
    "extract_field t grantee_rx = Inr (grantee d)"
    "extract_field t apn_rx = Inr (apn d)"
    "extract_field t status_rx = Inr (status d)"
    "parse_amount_numeric t = Inr (amount_numeric d)"
    "parse_amount_written t = Inr (amount_written d)"
    by blast
  from parse_date_returns [of t "''Date Signed''"] d(5)
  have s: "\<forall>x. date_signed d = Some x \<longrightarrow> valid_date x" by simp
  from parse_date_returns [of t "''Date Recorded''"] d(6)
  have r: "\<forall>x. date_recorded d = Some x \<longrightarrow> valid_date x" by simp
  from d(11) have a: "\<forall>g. re_search amount_rx t = Some [g]
              \<and> py_float (remove_char (CHR '','') g) = Inl ValueError
            \<longrightarrow> amount_numeric d = None"
    by (auto simp: parse_amount_numeric_def group_def bind_def except_ValueError_def)
  from d s r a show ?thesis by blast
qed

lemma t1_date: "parse_date ''Status: ok Date Signed: 2020-13-01 Amount: $1.2.3'' ''Date Signed'' = Inr None"
  by (simp add: parse_date_def date_rx_def bind_def group_def py_int_def digits_val_def
      digit_val_def except_ValueError_def datetime_new_def text_defs)

lemma t1_amount: "parse_amount_numeric ''Status: ok Date Signed: 2020-13-01 Amount: $1.2.3'' = Inr None"
  by (simp add: parse_amount_numeric_def amount_rx_def bind_def group_def py_float_def
      remove_char_def except_ValueError_def text_defs)

lemma t1_status: "extract_field ''Status: ok Date Signed: 2020-13-01 Amount: $1.2.3'' status_rx
    = Inr (Some ''ok'')"
  by (simp add: extract_field_def status_rx_def labelled_def bind_def group_def strip_def
      isword_def text_defs)

lemma t2_date: "parse_date ''Date Signed: 2020-01-05'' ''Date Signed'' = Inr (Some (midnight 2020 1 5))"
  by (simp add: parse_date_def date_rx_def bind_def group_def py_int_def digits_val_def
      digit_val_def except_ValueError_def datetime_new_def days_in_month_def is_leap_def
      midnight_def text_defs)

text \<open>
  A text with month 13 and the amount \<open>1.2.3\<close>: both fields are unset and the status is
  still extracted. A text with a valid date: the field holds it.
\<close>

theorem parse_never_raises_witness:
  "(\<exists>d. parse ''Status: ok Date Signed: 2020-13-01 Amount: $1.2.3'' = Inr d
        \<and> status d = Some ''ok'' \<and> date_signed d = None \<and> amount_numeric d = None)
   \<and> (\<exists>d. parse ''Date Signed: 2020-01-05'' = Inr d
        \<and> date_signed d = Some (midnight 2020 1 5) \<and> valid_date (midnight 2020 1 5))"
proof -
  from parse_never_raises [of "''Status: ok Date Signed: 2020-13-01 Amount: $1.2.3''"]
  have 1: "\<exists>d. parse ''Status: ok Date Signed: 2020-13-01 Amount: $1.2.3'' = Inr d
        \<and> status d = Some ''ok'' \<and> date_signed d = None \<and> amount_numeric d = None"
    by (simp only: t1_date t1_amount t1_status) auto
  from parse_never_raises [of "''Date Signed: 2020-01-05''"]
  have 2: "\<exists>d. parse ''Date Signed: 2020-01-05'' = Inr d
        \<and> date_signed d = Some (midnight 2020 1 5) \<and> valid_date (midnight 2020 1 5)"
    by (simp only: t2_date) auto
  from 1 2 show ?thesis by simp
qed

section \<open>A written amount in words\<close>

lemma parse_written_two_million: "parse_written_amount ''Two Million'' = Inr None"
  by (simp add: parse_written_amount_def add_component_def unit_rx_def bind_def text_defs)

lemma t3_date: "parse_date ''Amount: $1,000,000.00 (Two Million)'' ''Date Signed'' = Inr None"
  by (simp add: parse_date_def date_rx_def text_defs)

lemma t3_county: "extract_field ''Amount: $1,000,000.00 (Two Million)'' county_rx = Inr None"
  by (simp add: extract_field_def county_rx_def labelled_def text_defs)

lemma t3_amount:
  "parse_amount_numeric ''Amount: $1,000,000.00 (Two Million)'' = Inr (Some (Finite 1000000))"
  by (simp add: parse_amount_numeric_def amount_rx_def bind_def group_def py_float_def
      remove_char_def digits_val_def digit_val_def except_ValueError_def text_defs
      double_1000000)

lemma t3_written:
  "parse_amount_written ''Amount: $1,000,000.00 (Two Million)'' = Inr (Some ''Two Million'')"
  by (simp add: parse_amount_written_def written_rx_def bind_def group_def strip_def text_defs)

lemma t4_amount:
  "parse_amount_numeric ''Amount: $1,000,000.00 (2 Million)'' = Inr (Some (Finite 1000000))"
  by (simp add: parse_amount_numeric_def amount_rx_def bind_def group_def py_float_def
      remove_char_def digits_val_def digit_val_def except_ValueError_def text_defs
      double_1000000)

lemma t4_written:
  "parse_amount_written ''Amount: $1,000,000.00 (2 Million)'' = Inr (Some ''2 Million'')"
  by (simp add: parse_amount_written_def written_rx_def bind_def group_def strip_def text_defs)

lemma t4_date: "parse_date ''Amount: $1,000,000.00 (2 Million)'' ''Date Signed'' = Inr None"
  by (simp add: parse_date_def date_rx_def text_defs)

text \<open>
  Claim C4 as stated fails: the written amount is read by
  \<open>(\d+(?:\.\d+)?)\s*Million\<close>, which needs digits, so \<open>Two Million\<close> does not parse.
  For the text \<open>Amount: $1,000,000.00 (Two Million)\<close> processing ends with no error and
  the warning that the written amount could not be parsed.
\<close>

theorem two_million_counterexample:
  "\<exists>d. process_deed sequence_ratio santa_clara_db ''Amount: $1,000,000.00 (Two Million)'' = Inr d
     \<and> amount_numeric d = Some (Finite 1000000) \<and> amount_written d = Some ''Two Million''
     \<and> errors d = [] \<and> warnings d = [CouldNotParse ''Two Million'']"
proof -
  from parse_fields [of "''Amount: $1,000,000.00 (Two Million)''"] obtain d where
    d: "parse ''Amount: $1,000,000.00 (Two Million)'' = Inr d"
    and f: "date_signed d = None" "county_raw d = None" "amount_numeric d = Some (Finite 1000000)"
      "amount_written d = Some ''Two Million''" "errors d = []" "warnings d = []"
    by (auto simp only: t3_date t3_county t3_amount t3_written sum.inject)
  have "validate sequence_ratio santa_clara_db d
      = Inr (d\<lparr>warnings := [CouldNotParse ''Two Million'']\<rparr>)"
    using f
    by (simp add: validate_def validate_date_logic_def validate_amount_reconciliation_def
        bind_def parse_written_two_million enrich_county_def)
  with d f show ?thesis by (simp add: process_deed_def bind_def)
qed

text \<open>
  Claim C4, amended. For a record with the numeric amount 1,000,000 and the written amount
  \<open>2 Million\<close>, in digits, amount reconciliation raises an \<open>AmountMismatchError\<close> with
  delta 1,000,000, and validation appends it as its one error when the date-order check
  passes. With the written amount \<open>Two Million\<close> nothing is raised and the warning that
  it could not be parsed is appended.
\<close>

theorem written_amount_in_digits:
  assumes "amount_numeric deed = Some (Finite 1000000)"
  shows "(amount_written deed = Some ''2 Million'' \<longrightarrow>
           validate_amount_reconciliation deed
             = Inl (AmountMismatchError (Finite 1000000) ''2 Million'' (Finite 1000000))
           \<and> (validate_date_logic deed = Inr () \<longrightarrow>
                validate ratio db deed
                  = Inr (deed\<lparr>errors := errors deed
                      @ [ErrorText (AmountMismatchError (Finite 1000000) ''2 Million'' (Finite 1000000))]\<rparr>)))
         \<and> (amount_written deed = Some ''Two Million'' \<longrightarrow>
           validate_amount_reconciliation deed
             = Inr (deed\<lparr>warnings := warnings deed @ [CouldNotParse ''Two Million'']\<rparr>))"
  using assms
  by (simp add: validate_amount_reconciliation_def bind_def parse_written_2_million
      parse_written_two_million validate_def except_ValidationError_def
      discrepancy_1000000 double_0_01 Let_def)

text \<open>The records extracted from the two texts.\<close>

theorem written_amount_in_digits_witness:
  "(\<exists>d. parse ''Amount: $1,000,000.00 (2 Million)'' = Inr d
        \<and> amount_numeric d = Some (Finite 1000000) \<and> amount_written d = Some ''2 Million''
        \<and> validate_amount_reconciliation d
             = Inl (AmountMismatchError (Finite 1000000) ''2 Million'' (Finite 1000000))
        \<and> validate sequence_ratio santa_clara_db d
             = Inr (d\<lparr>errors := [ErrorText (AmountMismatchError (Finite 1000000) ''2 Million'' (Finite 1000000))]\<rparr>))
   \<and> (\<exists>d. parse ''Amount: $1,000,000.00 (Two Million)'' = Inr d
        \<and> amount_numeric d = Some (Finite 1000000) \<and> amount_written d = Some ''Two Million''
        \<and> validate_amount_reconciliation d
             = Inr (d\<lparr>warnings := [CouldNotParse ''Two Million'']\<rparr>))"
proof -
  from parse_fields [of "''Amount: $1,000,000.00 (2 Million)''"] obtain d where
    d: "parse ''Amount: $1,000,000.00 (2 Million)'' = Inr d"
    and f: "date_signed d = None" "amount_numeric d = Some (Finite 1000000)"
      "amount_written d = Some ''2 Million''" "errors d = []"
    by (auto simp only: t4_date t4_amount t4_written sum.inject)
  from f have "validate_date_logic d = Inr ()" by (simp add: validate_date_logic_def)
  with d f written_amount_in_digits [OF f(2), of sequence_ratio santa_clara_db]
  have 1: "\<exists>d. parse ''Amount: $1,000,000.00 (2 Million)'' = Inr d
        \<and> amount_numeric d = Some (Finite 1000000) \<and> amount_written d = Some ''2 Million''
        \<and> validate_amount_reconciliation d
             = Inl (AmountMismatchError (Finite 1000000) ''2 Million'' (Finite 1000000))
        \<and> validate sequence_ratio santa_clara_db d
             = Inr (d\<lparr>errors := [ErrorText (AmountMismatchError (Finite 1000000) ''2 Million'' (Finite 1000000))]\<rparr>)"
    by auto
  from parse_fields [of "''Amount: $1,000,000.00 (Two Million)''"] obtain d' where
    d': "parse ''Amount: $1,000,000.00 (Two Million)'' = Inr d'"
    and f': "amount_numeric d' = Some (Finite 1000000)" "amount_written d' = Some ''Two Million''"
      "warnings d' = []"
    by (auto simp only: t3_amount t3_written sum.inject)
  with written_amount_in_digits [OF f'(1), of sequence_ratio santa_clara_db]
  have 2: "\<exists>d. parse ''Amount: $1,000,000.00 (Two Million)'' = Inr d
        \<and> amount_numeric d = Some (Finite 1000000) \<and> amount_written d = Some ''Two Million''
        \<and> validate_amount_reconciliation d
             = Inr (d\<lparr>warnings := [CouldNotParse ''Two Million'']\<rparr>)"
    by auto
  from 1 2 show ?thesis by simp
qed

end
